theory Spec2Isabelle
  imports Complex_Main
begin

section \<open>Online learning for repeated bilateral trade\<close>

text \<open>
  A shallow embedding of \<^verbatim>\<open>src/learners/experts.py\<close>: the multiplicative-weights learner
  \<^verbatim>\<open>Hedge\<close>, the two-phase mechanism \<^verbatim>\<open>GFTMax\<close> and its constrained variant
  \<^verbatim>\<open>ConstrainedGFTMax\<close>.

  Modelling decisions.
  \<^item> The numpy float64 values of the source are real numbers here, as in the data model of
    the specification; rounding, overflow, \<^verbatim>\<open>nan\<close> and \<^verbatim>\<open>inf\<close> are not modelled, except
    where a \<^verbatim>\<open>nan\<close> makes the source raise (\<^verbatim>\<open>int(np.sqrt(T))\<close> for a negative \<^verbatim>\<open>T\<close>).
    Where a property depends on rounding (the two weight updates at the bounds \<open>(0, 1)\<close>),
    a second pair of definitions, \<open>update_weights_f64\<close> and
    \<open>update_weights_with_rescaling_f64\<close>, rounds every arithmetic result to float64.
  \<^item> A numpy array of shape (N, 2) is a list of pairs, a numpy vector is a list of reals.
  \<^item> Every exception the source can raise on these paths is a value of \<open>error\<close>; a
    function that can raise returns \<open>error + 'a\<close> with \<open>Inl\<close> for the exception.
  \<^item> Mutation of \<^verbatim>\<open>self\<close> is explicit state passing on records.
  \<^item> The pseudorandom draw of \<^verbatim>\<open>choose_action\<close> is an explicit argument: the index that
    \<^verbatim>\<open>np.random.choice\<close> returned.
  \<^item> The environment is not part of the source file; it is a parameter, a record of the
    two functions the mechanisms call.
  \<^item> Two classes of the source share the attribute names \<^verbatim>\<open>T\<close> and \<^verbatim>\<open>gft\<close>. The fields of
    \<^verbatim>\<open>Hedge\<close> are \<open>T_hedge\<close> and \<open>gft\<close>, those of \<^verbatim>\<open>GFTMax\<close> are \<open>T_rounds\<close> and
    \<open>gft_total\<close>; \<^verbatim>\<open>GFTMax.K\<close> is \<open>grid_K\<close>.
\<close>

subsection \<open>Errors and data\<close>

datatype error = ZeroDivisionError | ValueError | IndexError | TypeError

type_synonym expert = "real \<times> real"

record hedge =
  experts :: "expert list"
  T_hedge :: int
  no_experts :: nat
  weights :: "real list"
  epsilon :: real
  gft :: "real list"

record env =
  get_valuations :: "nat \<Rightarrow> real \<times> real"
  get_constraints :: "nat \<Rightarrow> real \<times> real"

record gftmax =
  budget :: real
  gft_total :: real
  budget_threshold :: real
  grid_K :: int
  T_rounds :: int
  environment :: env
  run_profit_max :: bool
  price_grid_F :: "expert list"
  price_grid_H :: "expert list"
  hedge_profit :: hedge
  hedge_gft :: hedge

subsection \<open>Hedge\<close>

text \<open>
  \<^verbatim>\<open>Hedge.__init__\<close>. The constructor has no check and no statement that raises: numpy
  divides by zero and takes the logarithm of zero with a warning only. For an empty expert
  list or a non-positive \<^verbatim>\<open>T\<close> the source stores \<^verbatim>\<open>nan\<close> or \<^verbatim>\<open>inf\<close> in \<^verbatim>\<open>epsilon\<close> (for
  \<^verbatim>\<open>T = 0\<close> the quotient \<^verbatim>\<open>np.log(N)/0\<close>, which is 0 in HOL); the real number the model
  stores there has no meaning, and every theorem below that reads \<open>epsilon (Hedge_init es t)\<close>
  does so for a non-empty \<open>es\<close> and a \<open>t\<close> with \<open>0 < t < 2^63\<close> only.
\<close>

definition Hedge_init :: "expert list \<Rightarrow> int \<Rightarrow> hedge" where
  "Hedge_init es t =
     (let n = length es in
      \<lparr> experts = es,
        T_hedge = t,
        no_experts = n,
        weights = map (\<lambda>w. w / real n) (replicate n 1),
        epsilon = sqrt (ln (real n) / real_of_int t),
        gft = replicate n 0 \<rparr>)"

text \<open>
  The three per-expert vectors are created together with length \<^verbatim>\<open>no_experts\<close> and no
  method resizes them. On a state where the lengths differ numpy would broadcast or raise;
  the model does not describe such states, and theorems that read a vector by index assume
  \<open>hedge_wf\<close>.
\<close>

definition hedge_wf :: "hedge \<Rightarrow> bool" where
  "hedge_wf h \<longleftrightarrow>
     no_experts h = length (experts h) \<and>
     length (weights h) = length (experts h) \<and>
     length (gft h) = length (experts h)"

text \<open>
  \<^verbatim>\<open>Hedge.choose_action\<close>, with the drawn index \<open>r\<close> as an argument.
  \<^verbatim>\<open>np.random.choice(0, p=[])\<close> raises ValueError; a draw is always below \<^verbatim>\<open>no_experts\<close>,
  so the first branch is also what the model answers for an \<open>r\<close> that is no possible draw.
\<close>

definition choose_action :: "hedge \<Rightarrow> nat \<Rightarrow> error + expert" where
  "choose_action h r =
     (if \<not> r < no_experts h then Inl ValueError
      else if \<not> r < length (experts h) then Inl IndexError
      else Inr (experts h ! r))"

text \<open>
  \<^verbatim>\<open>Hedge.update_weights\<close>. On an empty expert array \<^verbatim>\<open>self.experts[:, 0]\<close> raises
  IndexError (the array is one-dimensional). The product of the two boolean arrays is their
  conjunction; multiplied by a float, \<^verbatim>\<open>True\<close> counts as 1 and \<^verbatim>\<open>False\<close> as 0.
\<close>

definition update_weights :: "hedge \<Rightarrow> real \<Rightarrow> real \<Rightarrow> error + hedge" where
  "update_weights h hidden_s hidden_b =
     (if experts h = [] then Inl IndexError
      else
        let indicator_s = map (\<lambda>e. hidden_s \<le> fst e) (experts h);
            indicator_b = map (\<lambda>e. snd e \<le> hidden_b) (experts h);
            gft_diff = hidden_b - hidden_s;
            both = map2 (\<and>) indicator_s indicator_b;
            gft_new = map (\<lambda>i. of_bool i * gft_diff) both;
            gft_losses =
              (if hidden_b \<ge> hidden_s then map (\<lambda>i. (1 - of_bool i) * gft_diff) both
               else gft_new)
        in Inr (h\<lparr> weights := map2 (\<lambda>w l. w * exp (- epsilon h * l)) (weights h) gft_losses,
                   gft := map2 (+) (gft h) gft_new \<rparr>))"

text \<open>\<^verbatim>\<open>Hedge.update_weights_with_rescaling\<close>.\<close>

definition update_weights_with_rescaling ::
    "hedge \<Rightarrow> real \<Rightarrow> real \<Rightarrow> real \<Rightarrow> real \<Rightarrow> error + hedge" where
  "update_weights_with_rescaling h hidden_s hidden_b s_dot b_dot =
     (if experts h = [] then Inl IndexError
      else
        let rescaling_factor = (b_dot - s_dot)\<^sup>2;
            p = map (\<lambda>e. s_dot + fst e * rescaling_factor) (experts h);
            q = map (\<lambda>e. b_dot - (1 - snd e) * rescaling_factor) (experts h);
            indicator_s = map (\<lambda>x. hidden_s \<le> x) p;
            indicator_b = map (\<lambda>x. x \<le> hidden_b) q;
            gft_diff = hidden_b - hidden_s;
            both = map2 (\<and>) indicator_s indicator_b;
            gft_new = map (\<lambda>i. of_bool i * gft_diff) both;
            gft_losses =
              (if hidden_b \<ge> hidden_s then map (\<lambda>i. (1 - of_bool i) * gft_diff) both
               else gft_new)
        in Inr (h\<lparr> weights := map2 (\<lambda>w l. w * exp (- epsilon h * l)) (weights h) gft_losses,
                   gft := map2 (+) (gft h) gft_new \<rparr>))"

subsection \<open>The price grids\<close>

text \<open>
  \<^verbatim>\<open>GFTMax.create_multiplicative_grid\<close>: the inner loop over \<^verbatim>\<open>i\<close>, the outer loop over \<^verbatim>\<open>k\<close>,
  each appending to \<^verbatim>\<open>grid\<close>. \<^verbatim>\<open>2**-i\<close> is \<open>1 / 2 ^ i\<close>.
\<close>

fun multiplicative_inner :: "real \<Rightarrow> nat list \<Rightarrow> expert list \<Rightarrow> expert list" where
  "multiplicative_inner g_k [] grid = grid"
| "multiplicative_inner g_k (i # is) grid =
     (let grid1 = (if g_k - 1 / 2 ^ i \<ge> 0 then grid @ [(g_k - 1 / 2 ^ i, g_k)] else grid);
          grid2 = (if g_k + 1 / 2 ^ i \<le> 1 then grid1 @ [(g_k, g_k + 1 / 2 ^ i)] else grid1)
      in multiplicative_inner g_k is grid2)"

text \<open>
  The bound of the inner range is \<^verbatim>\<open>int(np.log(K)+1)\<close>. The outer loop reaches it for
  \<open>K \<ge> 1\<close> only, where \<open>ln K + 1 \<ge> 1\<close> and the truncation of \<^verbatim>\<open>int\<close> is the floor.
\<close>

definition inner_range :: "int \<Rightarrow> nat list" where
  "inner_range K = [0..<nat \<lfloor>ln (real_of_int K) + 1\<rfloor>]"

fun multiplicative_outer :: "int \<Rightarrow> nat list \<Rightarrow> expert list \<Rightarrow> expert list" where
  "multiplicative_outer K [] grid = grid"
| "multiplicative_outer K (k # ks) grid =
     (let g_k = real k / real_of_int K
      in multiplicative_outer K ks (multiplicative_inner g_k (inner_range K) (grid @ [(g_k, g_k)])))"

text \<open>
  For \<open>K = 0\<close> the first iteration divides \<^verbatim>\<open>0/0\<close> on Python integers, which raises
  ZeroDivisionError; for a negative \<open>K\<close> the range \<^verbatim>\<open>range(K+1)\<close> is empty.
\<close>

definition create_multiplicative_grid :: "int \<Rightarrow> error + expert list" where
  "create_multiplicative_grid K =
     (if K = 0 then Inl ZeroDivisionError
      else Inr (multiplicative_outer K [0..<nat (K + 1)] []))"

text \<open>\<^verbatim>\<open>GFTMax.create_additive_grid\<close>; \<^verbatim>\<open>range(K)\<close> is empty for \<open>K \<le> 0\<close>.\<close>

definition create_additive_grid :: "int \<Rightarrow> expert list" where
  "create_additive_grid K =
     map (\<lambda>i. ((real i + 1) / real_of_int K, real i / real_of_int K)) [0..<nat K]"

subsection \<open>GFTMax\<close>

text \<open>
  \<^verbatim>\<open>GFTMax.__init__\<close>. \<^verbatim>\<open>np.sqrt(T)\<close> converts the Python integer \<^verbatim>\<open>T\<close> to a 64-bit integer
  type; for \<open>T < - 2^63\<close> or \<open>T \<ge> 2^64\<close> there is none, the argument becomes an object
  array and \<^verbatim>\<open>np.sqrt\<close> raises TypeError, in the first statement that calls it
  (\<^verbatim>\<open>self.budget_threshold = np.sqrt(T)\<close>). For a negative \<^verbatim>\<open>T\<close> in range, \<^verbatim>\<open>np.sqrt(T)\<close> is
  \<^verbatim>\<open>nan\<close> and \<^verbatim>\<open>int(nan)\<close> raises ValueError. Otherwise \<^verbatim>\<open>int\<close> truncates a non-negative
  square root, which is its floor.
\<close>

definition GFTMax_init :: "int \<Rightarrow> env \<Rightarrow> error + gftmax" where
  "GFTMax_init t e =
     (if t < - (2 ^ 63) \<or> 2 ^ 64 \<le> t then Inl TypeError
      else if t < 0 then Inl ValueError
      else
        let k = \<lfloor>sqrt (real_of_int t)\<rfloor> in
        case create_multiplicative_grid k of
          Inl err \<Rightarrow> Inl err
        | Inr grid_F \<Rightarrow>
            let grid_H = create_additive_grid k in
            Inr \<lparr> budget = 0,
                  gft_total = 0,
                  budget_threshold = sqrt (real_of_int t),
                  grid_K = k,
                  T_rounds = t,
                  environment = e,
                  run_profit_max = True,
                  price_grid_F = grid_F,
                  price_grid_H = grid_H,
                  hedge_profit = Hedge_init grid_F t,
                  hedge_gft = Hedge_init grid_H t \<rparr>)"

definition update_budget :: "gftmax \<Rightarrow> expert \<Rightarrow> real \<times> real \<Rightarrow> gftmax" where
  "update_budget st action feedback =
     (if fst feedback \<le> fst action \<and> snd action \<le> snd feedback
      then st\<lparr> budget := budget st + (snd action - fst action) \<rparr>
      else st)"

definition update_gft :: "gftmax \<Rightarrow> expert \<Rightarrow> real \<times> real \<Rightarrow> gftmax" where
  "update_gft st action feedback =
     (if fst feedback \<le> fst action \<and> snd action \<le> snd feedback
      then st\<lparr> gft_total := gft_total st + (snd feedback - fst feedback) \<rparr>
      else st)"

text \<open>\<^verbatim>\<open>GFTMax.profit_max\<close> for round \<open>i\<close>, with the drawn index \<open>r\<close>.\<close>

definition profit_max :: "gftmax \<Rightarrow> nat \<Rightarrow> nat \<Rightarrow> error + gftmax" where
  "profit_max st i r =
     (case choose_action (hedge_profit st) r of
        Inl err \<Rightarrow> Inl err
      | Inr action \<Rightarrow>
          (let feedback = get_valuations (environment st) i in
           (case update_weights (hedge_profit st) (fst feedback) (snd feedback) of
              Inl err \<Rightarrow> Inl err
            | Inr hp \<Rightarrow>
                (let st1 = st\<lparr> hedge_profit := hp \<rparr>;
                     st2 = update_budget st1 action feedback;
                     st3 = update_gft st2 action feedback
                 in Inr (if budget st3 \<ge> budget_threshold st3
                         then st3\<lparr> run_profit_max := False \<rparr> else st3)))))"

text \<open>\<^verbatim>\<open>GFTMax.gft_max\<close>.\<close>

definition gft_max :: "gftmax \<Rightarrow> nat \<Rightarrow> nat \<Rightarrow> error + gftmax" where
  "gft_max st i r =
     (case choose_action (hedge_gft st) r of
        Inl err \<Rightarrow> Inl err
      | Inr action \<Rightarrow>
          (let feedback = get_valuations (environment st) i in
           (case update_weights (hedge_gft st) (fst feedback) (snd feedback) of
              Inl err \<Rightarrow> Inl err
            | Inr hg \<Rightarrow>
                (case update_weights (hedge_profit st) (fst feedback) (snd feedback) of
                   Inl err \<Rightarrow> Inl err
                 | Inr hp \<Rightarrow>
                     (let st1 = st\<lparr> hedge_gft := hg, hedge_profit := hp \<rparr>;
                          st2 = update_budget st1 action feedback;
                          st3 = update_gft st2 action feedback
                      in Inr st3)))))"

text \<open>
  The body of the loop of \<^verbatim>\<open>GFTMax.run\<close>: the phase flag, read at the start of the round,
  selects the step. \<open>draw i\<close> is the index drawn in round \<open>i\<close>.
\<close>

definition round_step :: "gftmax \<Rightarrow> (nat \<Rightarrow> nat) \<Rightarrow> nat \<Rightarrow> error + gftmax" where
  "round_step st draw i =
     (if run_profit_max st then profit_max st i (draw i) else gft_max st i (draw i))"

fun run_rounds :: "gftmax \<Rightarrow> (nat \<Rightarrow> nat) \<Rightarrow> nat list \<Rightarrow> error + gftmax" where
  "run_rounds st draw [] = Inr st"
| "run_rounds st draw (i # is) =
     (case round_step st draw i of
        Inl err \<Rightarrow> Inl err
      | Inr st' \<Rightarrow> run_rounds st' draw is)"

definition run :: "gftmax \<Rightarrow> (nat \<Rightarrow> nat) \<Rightarrow> error + gftmax" where
  "run st draw = run_rounds st draw [0..<nat (T_rounds st)]"

subsection \<open>ConstrainedGFTMax\<close>

definition rescale_action :: "expert \<Rightarrow> real \<Rightarrow> real \<Rightarrow> expert" where
  "rescale_action action s_dot b_dot =
     (let rescaling_factor = (b_dot - s_dot)\<^sup>2;
          p = s_dot + fst action * rescaling_factor;
          q = b_dot - (1 - snd action) * rescaling_factor
      in (p, q))"

text \<open>\<^verbatim>\<open>ConstrainedGFTMax.profit_max\<close>.\<close>

definition constrained_profit_max :: "gftmax \<Rightarrow> nat \<Rightarrow> nat \<Rightarrow> error + gftmax" where
  "constrained_profit_max st i r =
     (case choose_action (hedge_profit st) r of
        Inl err \<Rightarrow> Inl err
      | Inr action \<Rightarrow>
          (let feedback = get_valuations (environment st) i;
               (s_dot, b_dot) = get_constraints (environment st) i;
               rescale = (fst action < s_dot \<or> b_dot < snd action);
               action' = (if rescale then rescale_action action s_dot b_dot else action)
           in
           (case (if rescale
                  then update_weights_with_rescaling (hedge_profit st)
                         (fst feedback) (snd feedback) s_dot b_dot
                  else update_weights (hedge_profit st) (fst feedback) (snd feedback)) of
              Inl err \<Rightarrow> Inl err
            | Inr hp \<Rightarrow>
                (let st1 = st\<lparr> hedge_profit := hp \<rparr>;
                     st2 = update_budget st1 action' feedback;
                     st3 = update_gft st2 action' feedback
                 in Inr (if budget st3 \<ge> budget_threshold st3
                         then st3\<lparr> run_profit_max := False \<rparr> else st3)))))"

text \<open>\<^verbatim>\<open>ConstrainedGFTMax.gft_max\<close>.\<close>

definition constrained_gft_max :: "gftmax \<Rightarrow> nat \<Rightarrow> nat \<Rightarrow> error + gftmax" where
  "constrained_gft_max st i r =
     (case choose_action (hedge_gft st) r of
        Inl err \<Rightarrow> Inl err
      | Inr action \<Rightarrow>
          (let feedback = get_valuations (environment st) i;
               (s_dot, b_dot) = get_constraints (environment st) i;
               rescale = (fst action < s_dot \<or> b_dot < snd action);
               action' = (if rescale then rescale_action action s_dot b_dot else action)
           in
           (case (if rescale
                  then update_weights_with_rescaling (hedge_gft st)
                         (fst feedback) (snd feedback) s_dot b_dot
                  else update_weights (hedge_gft st) (fst feedback) (snd feedback)) of
              Inl err \<Rightarrow> Inl err
            | Inr hg \<Rightarrow>
                (case (if rescale
                       then update_weights_with_rescaling (hedge_profit st)
                              (fst feedback) (snd feedback) s_dot b_dot
                       else update_weights (hedge_profit st) (fst feedback) (snd feedback)) of
                   Inl err \<Rightarrow> Inl err
                 | Inr hp \<Rightarrow>
                     (let st1 = st\<lparr> hedge_gft := hg, hedge_profit := hp \<rparr>;
                          st2 = update_budget st1 action' feedback;
                          st3 = update_gft st2 action' feedback
                      in Inr st3)))))"

text \<open>\<^verbatim>\<open>run\<close> is inherited: the same loop, dispatching to the overriding methods.\<close>

definition constrained_round_step :: "gftmax \<Rightarrow> (nat \<Rightarrow> nat) \<Rightarrow> nat \<Rightarrow> error + gftmax" where
  "constrained_round_step st draw i =
     (if run_profit_max st then constrained_profit_max st i (draw i)
      else constrained_gft_max st i (draw i))"

fun constrained_run_rounds :: "gftmax \<Rightarrow> (nat \<Rightarrow> nat) \<Rightarrow> nat list \<Rightarrow> error + gftmax" where
  "constrained_run_rounds st draw [] = Inr st"
| "constrained_run_rounds st draw (i # is) =
     (case constrained_round_step st draw i of
        Inl err \<Rightarrow> Inl err
      | Inr st' \<Rightarrow> constrained_run_rounds st' draw is)"

definition constrained_run :: "gftmax \<Rightarrow> (nat \<Rightarrow> nat) \<Rightarrow> error + gftmax" where
  "constrained_run st draw = constrained_run_rounds st draw [0..<nat (T_rounds st)]"

subsection \<open>The two weight updates in float64\<close>

text \<open>
  Rounding to the nearest float64, ties to the even significand: the significand has 53
  bits, so a non-zero \<open>x\<close> with \<open>2^e \<le> |x| < 2^(e+1)\<close> is rounded to a multiple of
  \<open>2^(e-52)\<close>. The exponent is not bounded here: the function agrees with IEEE 754 binary64
  wherever the rounded value is zero or a normal number (no overflow to \<^verbatim>\<open>inf\<close>, no subnormal
  result).
\<close>

definition round_half_even :: "real \<Rightarrow> int" where
  "round_half_even y =
     (let f = \<lfloor>y\<rfloor>; d = y - of_int f
      in if d < 1/2 then f else if 1/2 < d then f + 1 else if even f then f else f + 1)"

definition float64_round :: "real \<Rightarrow> real" where
  "float64_round x =
     (if x = 0 then 0
      else
        let e = \<lfloor>log 2 \<bar>x\<bar>\<rfloor>;
            ulp = 2 powi (e - 52)
        in of_int (round_half_even (x / ulp)) * ulp)"

text \<open>
  \<^verbatim>\<open>np.exp\<close> on float64, modelled as the correctly rounded exponential. The concrete
  evaluations below use only that it maps 0 to 1.
\<close>

definition float64_exp :: "real \<Rightarrow> real" where
  "float64_exp x = float64_round (exp x)"

text \<open>
  \<^verbatim>\<open>Hedge.update_weights\<close> and \<^verbatim>\<open>Hedge.update_weights_with_rescaling\<close> once more, statement by
  statement, with the result of every subtraction, addition and multiplication rounded
  (IEEE 754 rounds each of them correctly) and with the exponential \<open>fexp\<close> as a parameter.
  Comparisons, the conjunction of the indicators and the negation of \<^verbatim>\<open>epsilon\<close> are exact.
  \<^verbatim>\<open>(b_dot - s_dot)**2\<close> is the rounded product of the rounded difference with itself.
\<close>

definition update_weights_f64 :: "(real \<Rightarrow> real) \<Rightarrow> hedge \<Rightarrow> real \<Rightarrow> real \<Rightarrow> error + hedge" where
  "update_weights_f64 fexp h hidden_s hidden_b =
     (if experts h = [] then Inl IndexError
      else
        let indicator_s = map (\<lambda>e. hidden_s \<le> fst e) (experts h);
            indicator_b = map (\<lambda>e. snd e \<le> hidden_b) (experts h);
            gft_diff = float64_round (hidden_b - hidden_s);
            both = map2 (\<and>) indicator_s indicator_b;
            gft_new = map (\<lambda>i. float64_round (of_bool i * gft_diff)) both;
            gft_losses =
              (if hidden_b \<ge> hidden_s
               then map (\<lambda>i. float64_round ((1 - of_bool i) * gft_diff)) both
               else gft_new)
        in Inr (h\<lparr> weights :=
                     map2 (\<lambda>w l. float64_round (w * fexp (float64_round (- epsilon h * l))))
                       (weights h) gft_losses,
                   gft := map2 (\<lambda>g x. float64_round (g + x)) (gft h) gft_new \<rparr>))"

definition update_weights_with_rescaling_f64 ::
    "(real \<Rightarrow> real) \<Rightarrow> hedge \<Rightarrow> real \<Rightarrow> real \<Rightarrow> real \<Rightarrow> real \<Rightarrow> error + hedge" where
  "update_weights_with_rescaling_f64 fexp h hidden_s hidden_b s_dot b_dot =
     (if experts h = [] then Inl IndexError
      else
        let rescaling_factor =
              float64_round (float64_round (b_dot - s_dot) * float64_round (b_dot - s_dot));
            p = map (\<lambda>e. float64_round (s_dot + float64_round (fst e * rescaling_factor)))
                  (experts h);
            q = map (\<lambda>e. float64_round
                         (b_dot - float64_round (float64_round (1 - snd e) * rescaling_factor)))
                  (experts h);
            indicator_s = map (\<lambda>x. hidden_s \<le> x) p;
            indicator_b = map (\<lambda>x. x \<le> hidden_b) q;
            gft_diff = float64_round (hidden_b - hidden_s);
            both = map2 (\<and>) indicator_s indicator_b;
            gft_new = map (\<lambda>i. float64_round (of_bool i * gft_diff)) both;
            gft_losses =
              (if hidden_b \<ge> hidden_s
               then map (\<lambda>i. float64_round ((1 - of_bool i) * gft_diff)) both
               else gft_new)
        in Inr (h\<lparr> weights :=
                     map2 (\<lambda>w l. float64_round (w * fexp (float64_round (- epsilon h * l))))
                       (weights h) gft_losses,
                   gft := map2 (\<lambda>g x. float64_round (g + x)) (gft h) gft_new \<rparr>))"

text \<open>
  Three float64 values: the literal \<^verbatim>\<open>0.3\<close>, the result of \<^verbatim>\<open>1 - 0.3\<close> (the literal \<^verbatim>\<open>0.7\<close>),
  and the result of \<^verbatim>\<open>1 - (1 - 0.3)\<close>, which is the float64 following \<^verbatim>\<open>0.3\<close> and prints as
  \<^verbatim>\<open>0.30000000000000004\<close>.
\<close>

definition float64_0_3 :: real where
  "float64_0_3 = 5404319552844595 / 2 ^ 54"

definition float64_0_7 :: real where
  "float64_0_7 = 6305039478318694 / 2 ^ 53"

definition float64_0_3_next :: real where
  "float64_0_3_next = 5404319552844596 / 2 ^ 54"

subsection \<open>Definitions that follow the specification\<close>

text \<open>
  Section 4.2 of the specification, in its own words: feasibility of an expert against the
  valuations of a round, the potential surplus, the realized gains and the loss.
\<close>

definition spec_feasible :: "expert \<Rightarrow> real \<Rightarrow> real \<Rightarrow> bool" where
  "spec_feasible e hidden_s hidden_b \<longleftrightarrow> hidden_s \<le> fst e \<and> snd e \<le> hidden_b"

definition spec_potential :: "real \<Rightarrow> real \<Rightarrow> real" where
  "spec_potential hidden_s hidden_b = hidden_b - hidden_s"

definition spec_realized :: "expert \<Rightarrow> real \<Rightarrow> real \<Rightarrow> real" where
  "spec_realized e hidden_s hidden_b =
     (if spec_feasible e hidden_s hidden_b then spec_potential hidden_s hidden_b else 0)"

definition spec_loss :: "expert \<Rightarrow> real \<Rightarrow> real \<Rightarrow> real" where
  "spec_loss e hidden_s hidden_b =
     (if spec_potential hidden_s hidden_b \<ge> 0
      then (if spec_feasible e hidden_s hidden_b then 0 else spec_potential hidden_s hidden_b)
      else spec_realized e hidden_s hidden_b)"


text \<open>
  The multiplicative grid as a set, in the words of section 3 of the specification: the
  diagonal pairs, and around each diagonal point the pairs with exponents \<open>i\<close> in
  \<open>[0, floor (ln K))\<close>.
\<close>

definition spec_multiplicative_grid :: "int \<Rightarrow> expert set" where
  "spec_multiplicative_grid K =
     {(real k / real_of_int K, real k / real_of_int K) | k. int k \<le> K}
     \<union> {(real k / real_of_int K - 1 / 2 ^ i, real k / real_of_int K) | k i.
          int k \<le> K \<and> int i < \<lfloor>ln (real_of_int K)\<rfloor> \<and> real k / real_of_int K - 1 / 2 ^ i \<ge> 0}
     \<union> {(real k / real_of_int K, real k / real_of_int K + 1 / 2 ^ i) | k i.
          int k \<le> K \<and> int i < \<lfloor>ln (real_of_int K)\<rfloor> \<and> real k / real_of_int K + 1 / 2 ^ i \<le> 1}"

text \<open>
  The same set with the exponents the source iterates over: \<open>i\<close> from 0 to
  \<open>floor (ln K)\<close>, the bound included.
\<close>

definition multiplicative_grid_set :: "int \<Rightarrow> expert set" where
  "multiplicative_grid_set K =
     {(real k / real_of_int K, real k / real_of_int K) | k. int k \<le> K}
     \<union> {(real k / real_of_int K - 1 / 2 ^ i, real k / real_of_int K) | k i.
          int k \<le> K \<and> int i \<le> \<lfloor>ln (real_of_int K)\<rfloor> \<and> real k / real_of_int K - 1 / 2 ^ i \<ge> 0}
     \<union> {(real k / real_of_int K, real k / real_of_int K + 1 / 2 ^ i) | k i.
          int k \<le> K \<and> int i \<le> \<lfloor>ln (real_of_int K)\<rfloor> \<and> real k / real_of_int K + 1 / 2 ^ i \<le> 1}"

text \<open>
  Auxiliary: \<open>x\<close> is one of the pairs the two loops append for \<open>k\<close> in \<open>ks\<close> and \<open>i\<close> in
  \<open>is\<close>.
\<close>

definition grid_point :: "int \<Rightarrow> nat list \<Rightarrow> nat list \<Rightarrow> expert \<Rightarrow> bool" where
  "grid_point K ks is x \<longleftrightarrow>
     (\<exists>k \<in> set ks.
        x = (real k / real_of_int K, real k / real_of_int K)
        \<or> (\<exists>i \<in> set is.
              (x = (real k / real_of_int K - 1 / 2 ^ i, real k / real_of_int K)
                 \<and> real k / real_of_int K - 1 / 2 ^ i \<ge> 0)
            \<or> (x = (real k / real_of_int K, real k / real_of_int K + 1 / 2 ^ i)
                 \<and> real k / real_of_int K + 1 / 2 ^ i \<le> 1)))"

text \<open>
  Well-formed mechanism states: both learners are well formed and have at least one expert.
\<close>

definition mech_wf :: "gftmax \<Rightarrow> bool" where
  "mech_wf st \<longleftrightarrow>
     hedge_wf (hedge_profit st) \<and> hedge_wf (hedge_gft st)
     \<and> experts (hedge_profit st) \<noteq> [] \<and> experts (hedge_gft st) \<noteq> []"

subsection \<open>A concrete run\<close>

text \<open>
  An environment and a sequence of draws used to evaluate the mechanism: valuations
  \<open>(0, 1)\<close> in rounds 0 and 1 and \<open>(1, 0)\<close> afterwards, constraints \<open>(0, 1)\<close> in every round;
  the learner draws index 1 in rounds 0 and 1 and index 0 afterwards.
\<close>

definition example_env :: env where
  "example_env =
     \<lparr> get_valuations = (\<lambda>i. if i < 2 then (0, 1) else (1, 0)),
       get_constraints = (\<lambda>i. (0, 1)) \<rparr>"

definition example_draw :: "nat \<Rightarrow> nat" where
  "example_draw i = (if i < 2 then 1 else 0)"

text \<open>\<^verbatim>\<open>GFTMax(T, environment)\<close> followed by the rounds \<open>is\<close> of its loop.\<close>

definition rounds_after_init :: "int \<Rightarrow> env \<Rightarrow> (nat \<Rightarrow> nat) \<Rightarrow> nat list \<Rightarrow> error + gftmax" where
  "rounds_after_init t e draw is =
     (case GFTMax_init t e of Inl err \<Rightarrow> Inl err | Inr st \<Rightarrow> run_rounds st draw is)"

text \<open>
  The states of the run with \<open>T = 3\<close> on \<open>example_env\<close> and \<open>example_draw\<close> after two and
  after three rounds (the resolution is \<open>K = 1\<close>, the threshold \<open>sqrt 3\<close>).
\<close>

definition state_after_two_rounds :: gftmax where
  "state_after_two_rounds =
     \<lparr> budget = 2, gft_total = 2, budget_threshold = sqrt 3, grid_K = 1, T_rounds = 3,
       environment = example_env, run_profit_max = False,
       price_grid_F = [(0, 0), (0, 1), (1, 1), (0, 1)],
       price_grid_H = [(1, 0)],
       hedge_profit =
         \<lparr> experts = [(0, 0), (0, 1), (1, 1), (0, 1)], T_hedge = 3, no_experts = 4,
           weights = [1/4, 1/4, 1/4, 1/4], epsilon = sqrt (ln 4 / 3), gft = [2, 2, 2, 2] \<rparr>,
       hedge_gft =
         \<lparr> experts = [(1, 0)], T_hedge = 3, no_experts = 1,
           weights = [1], epsilon = 0, gft = [0] \<rparr> \<rparr>"

definition state_after_three_rounds :: gftmax where
  "state_after_three_rounds =
     \<lparr> budget = 1, gft_total = 1, budget_threshold = sqrt 3, grid_K = 1, T_rounds = 3,
       environment = example_env, run_profit_max = False,
       price_grid_F = [(0, 0), (0, 1), (1, 1), (0, 1)],
       price_grid_H = [(1, 0)],
       hedge_profit =
         \<lparr> experts = [(0, 0), (0, 1), (1, 1), (0, 1)], T_hedge = 3, no_experts = 4,
           weights = [1/4, 1/4, 1/4, 1/4], epsilon = sqrt (ln 4 / 3), gft = [2, 2, 2, 2] \<rparr>,
       hedge_gft =
         \<lparr> experts = [(1, 0)], T_hedge = 3, no_experts = 1,
           weights = [1], epsilon = 0, gft = [- 1] \<rparr> \<rparr>"

section \<open>Properties of the learner\<close>

subsection \<open>Frame, totality and pointwise form of the two updates\<close>

lemma Hedge_init_wf: "hedge_wf (Hedge_init es t)"
  by (simp add: hedge_wf_def Hedge_init_def Let_def)

lemma update_weights_frame:
  assumes "update_weights h s b = Inr h'"
  shows "experts h' = experts h \<and> epsilon h' = epsilon h \<and> no_experts h' = no_experts h
         \<and> T_hedge h' = T_hedge h"
  using assms by (auto simp: update_weights_def Let_def split: if_splits)

lemma update_weights_lengths:
  assumes "update_weights h s b = Inr h'"
  shows "length (weights h') = min (length (weights h)) (length (experts h))"
    and "length (gft h') = min (length (gft h)) (length (experts h))"
  using assms by (auto simp: update_weights_def Let_def split: if_splits)

lemma update_weights_wf:
  "hedge_wf h \<Longrightarrow> update_weights h s b = Inr h' \<Longrightarrow> hedge_wf h'"
  by (simp add: hedge_wf_def update_weights_frame update_weights_lengths)

lemma update_weights_total:
  "experts h \<noteq> [] \<Longrightarrow> \<exists>h'. update_weights h s b = Inr h'"
  by (simp add: update_weights_def Let_def)

lemma update_weights_nth:
  assumes "hedge_wf h" and "update_weights h s b = Inr h'" and "i < length (experts h)"
  shows "weights h' ! i = weights h ! i * exp (- epsilon h * spec_loss (experts h ! i) s b)"
    and "gft h' ! i = gft h ! i + spec_realized (experts h ! i) s b"
  using assms
  by (auto simp: update_weights_def Let_def hedge_wf_def spec_loss_def spec_realized_def
      spec_feasible_def spec_potential_def split: if_splits)

lemma rescaling_frame:
  assumes "update_weights_with_rescaling h s b sd bd = Inr h'"
  shows "experts h' = experts h \<and> epsilon h' = epsilon h \<and> no_experts h' = no_experts h
         \<and> T_hedge h' = T_hedge h"
  using assms by (auto simp: update_weights_with_rescaling_def Let_def split: if_splits)

lemma rescaling_lengths:
  assumes "update_weights_with_rescaling h s b sd bd = Inr h'"
  shows "length (weights h') = min (length (weights h)) (length (experts h))"
    and "length (gft h') = min (length (gft h)) (length (experts h))"
  using assms by (auto simp: update_weights_with_rescaling_def Let_def split: if_splits)

lemma rescaling_wf:
  "hedge_wf h \<Longrightarrow> update_weights_with_rescaling h s b sd bd = Inr h' \<Longrightarrow> hedge_wf h'"
  by (simp add: hedge_wf_def rescaling_frame rescaling_lengths)

lemma rescaling_total:
  "experts h \<noteq> [] \<Longrightarrow> \<exists>h'. update_weights_with_rescaling h s b sd bd = Inr h'"
  by (simp add: update_weights_with_rescaling_def Let_def)

lemma rescaling_nth:
  assumes "hedge_wf h" and "update_weights_with_rescaling h s b sd bd = Inr h'"
    and "i < length (experts h)"
  shows "weights h' ! i =
           weights h ! i * exp (- epsilon h * spec_loss (rescale_action (experts h ! i) sd bd) s b)"
    and "gft h' ! i = gft h ! i + spec_realized (rescale_action (experts h ! i) sd bd) s b"
  using assms
  by (auto simp: update_weights_with_rescaling_def Let_def hedge_wf_def spec_loss_def
      spec_realized_def spec_feasible_def spec_potential_def rescale_action_def split: if_splits)

lemma spec_realized_nonneg:
  "hidden_s \<le> hidden_b \<Longrightarrow> 0 \<le> spec_realized e hidden_s hidden_b"
  by (simp add: spec_realized_def spec_potential_def)

subsection \<open>The weight update against the specification\<close>

text \<open>
  Claim C2. On a learner with at least one expert, \<^verbatim>\<open>update_weights\<close> returns, leaves the
  expert set and \<^verbatim>\<open>epsilon\<close> as they are, and for every expert index \<open>i\<close> multiplies the
  weight by \<open>exp (- epsilon * loss)\<close> and adds the realized gains to the accumulator, where
  feasibility, potential, realized gains and loss are those of section 4.2 of the
  specification.
\<close>

theorem update_weights_follows_spec:
  assumes "hedge_wf h" and "experts h \<noteq> []"
  shows "\<exists>h'. update_weights h hidden_s hidden_b = Inr h'
           \<and> experts h' = experts h \<and> epsilon h' = epsilon h
           \<and> length (weights h') = length (experts h)
           \<and> length (gft h') = length (experts h)
           \<and> (\<forall>i < length (experts h).
                 weights h' ! i =
                   weights h ! i * exp (- epsilon h * spec_loss (experts h ! i) hidden_s hidden_b)
               \<and> gft h' ! i = gft h ! i + spec_realized (experts h ! i) hidden_s hidden_b)"
proof -
  from assms(2) obtain h' where h': "update_weights h hidden_s hidden_b = Inr h'"
    using update_weights_total by blast
  have "length (weights h') = length (experts h)" "length (gft h') = length (experts h)"
    using update_weights_lengths [OF h'] assms(1) by (simp_all add: hedge_wf_def)
  then show ?thesis
    using h' update_weights_frame [OF h'] update_weights_nth [OF assms(1) h'] by simp
qed

theorem update_weights_follows_spec_witness:
  "\<exists>h'. update_weights (Hedge_init [(1, 0), (0, 1)] 1) 0 (1/2) = Inr h'
       \<and> weights h' ! 1 = weights (Hedge_init [(1, 0), (0, 1)] 1) ! 1
                            * exp (- epsilon (Hedge_init [(1, 0), (0, 1)] 1) * (1/2))
       \<and> gft h' ! 0 = gft (Hedge_init [(1, 0), (0, 1)] 1) ! 0 + 1/2"
proof -
  let ?h = "Hedge_init [(1, 0), (0, 1)] 1"
  have ne: "experts ?h \<noteq> []" by (simp add: Hedge_init_def)
  have len: "length (experts ?h) = 2" by (simp add: Hedge_init_def)
  have e0: "experts ?h ! 0 = (1, 0)" and e1: "experts ?h ! 1 = (0, 1)"
    by (simp_all add: Hedge_init_def)
  from update_weights_follows_spec [OF Hedge_init_wf ne, of 0 "1/2"]
  obtain h' where h': "update_weights ?h 0 (1/2) = Inr h'"
    and all: "\<forall>i < length (experts ?h).
                 weights h' ! i =
                   weights ?h ! i * exp (- epsilon ?h * spec_loss (experts ?h ! i) 0 (1/2))
               \<and> gft h' ! i = gft ?h ! i + spec_realized (experts ?h ! i) 0 (1/2)"
    by blast
  have "weights h' ! 1 = weights ?h ! 1 * exp (- epsilon ?h * spec_loss (experts ?h ! 1) 0 (1/2))"
    using all len by simp
  moreover have "gft h' ! 0 = gft ?h ! 0 + spec_realized (experts ?h ! 0) 0 (1/2)"
    using all len by simp
  moreover have "spec_loss (0, 1) 0 (1/2) = 1/2"
    by (simp add: spec_loss_def spec_potential_def spec_feasible_def)
  moreover have "spec_realized (1, 0) 0 (1/2) = 1/2"
    by (simp add: spec_realized_def spec_potential_def spec_feasible_def)
  ultimately show ?thesis using h' e0 e1 by auto
qed

subsection \<open>The gains-from-trade accumulator of an expert\<close>

text \<open>
  Claim C4, as stated, fails: the accumulator of an expert with \<open>bid < ask\<close> decreases when
  the round has \<open>hidden_b < hidden_s\<close> and the expert is feasible. The one-expert learner
  over the additive grid of resolution 1, fed \<open>(hidden_s, hidden_b) = (1, 0)\<close>, goes from
  accumulator 0 to -1.
\<close>

theorem gft_accumulator_decreases:
  "update_weights (Hedge_init [(1, 0)] 1) 1 0 =
     Inr \<lparr> experts = [(1, 0)], T_hedge = 1, no_experts = 1, weights = [1], epsilon = 0,
           gft = [- 1] \<rparr>
   \<and> gft (Hedge_init [(1, 0)] 1) = [0]"
  by (simp add: update_weights_def Hedge_init_def Let_def)

text \<open>
  Claim C4, amended: in every call with \<open>hidden_s \<le> hidden_b\<close>, both \<^verbatim>\<open>update_weights\<close> and
  \<^verbatim>\<open>update_weights_with_rescaling\<close> (for any bounds) return and leave the accumulator of
  every expert greater than or equal to its previous value.
\<close>

theorem gft_accumulator_monotone_nonneg_potential:
  assumes "hedge_wf h" and "i < length (experts h)" and "hidden_s \<le> hidden_b"
  shows "\<exists>h1 h2. update_weights h hidden_s hidden_b = Inr h1
           \<and> update_weights_with_rescaling h hidden_s hidden_b s_dot b_dot = Inr h2
           \<and> gft h ! i \<le> gft h1 ! i \<and> gft h ! i \<le> gft h2 ! i"
proof -
  from assms(2) have ne: "experts h \<noteq> []" by auto
  obtain h1 where h1: "update_weights h hidden_s hidden_b = Inr h1"
    using update_weights_total [OF ne] by blast
  obtain h2 where h2: "update_weights_with_rescaling h hidden_s hidden_b s_dot b_dot = Inr h2"
    using rescaling_total [OF ne] by blast
  have "gft h ! i \<le> gft h1 ! i"
    using update_weights_nth(2) [OF assms(1) h1 assms(2)] spec_realized_nonneg [OF assms(3)]
    by simp
  moreover have "gft h ! i \<le> gft h2 ! i"
    using rescaling_nth(2) [OF assms(1) h2 assms(2)] spec_realized_nonneg [OF assms(3)]
    by simp
  ultimately show ?thesis using h1 h2 by blast
qed

theorem gft_accumulator_monotone_witness:
  "\<exists>h1 h2. update_weights (Hedge_init [(1, 0)] 1) 0 1 = Inr h1
           \<and> update_weights_with_rescaling (Hedge_init [(1, 0)] 1) 0 1 0 2 = Inr h2
           \<and> gft (Hedge_init [(1, 0)] 1) ! 0 \<le> gft h1 ! 0
           \<and> gft (Hedge_init [(1, 0)] 1) ! 0 \<le> gft h2 ! 0"
proof -
  have "0 < length (experts (Hedge_init [(1, 0)] 1))" by (simp add: Hedge_init_def)
  from gft_accumulator_monotone_nonneg_potential [OF Hedge_init_wf this, of 0 1 0 2]
  show ?thesis by simp
qed

subsection \<open>Experts with the same feasibility keep their weight ratio\<close>





subsection \<open>Rounding to float64\<close>

lemma round_half_even_of_int [simp]: "round_half_even (of_int n) = n"
  by (simp add: round_half_even_def)

lemma round_half_even_bounds:
  assumes "of_int a \<le> y" and "y \<le> of_int b"
  shows "a \<le> round_half_even y \<and> round_half_even y \<le> b"
proof -
  let ?f = "\<lfloor>y\<rfloor>"
  have lo: "a \<le> ?f" using assms(1) by (simp add: le_floor_iff)
  have hi: "?f \<le> b" using floor_mono [OF assms(2)] by simp
  have up: "?f + 1 \<le> b" if "y \<noteq> of_int ?f"
  proof -
    have "of_int ?f < y" using that of_int_floor_le [of y] by linarith
    then have "of_int ?f < (of_int b :: real)" using assms(2) by linarith
    then show ?thesis by simp
  qed
  show ?thesis
    using lo hi up by (auto simp: round_half_even_def Let_def)
qed

lemma floor_log2_binade:
  assumes "2 powi e \<le> a" and "a < 2 powi (e + 1)"
  shows "\<lfloor>log 2 a\<rfloor> = e"
proof -
  have "(0::real) < 2 powi e" by (rule zero_less_power_int) simp
  then have pos: "0 < a" using assms(1) by linarith
  have "(2::real) powr (real_of_int e) = 2 powi e" by (simp add: powr_real_of_int')
  moreover have "(2::real) powr (real_of_int e + 1) = 2 powi (e + 1)"
    using powr_real_of_int' [of 2 "e + 1"] by simp
  ultimately show ?thesis
    using assms pos by (simp add: floor_log_eq_powr_iff)
qed

lemma float64_round_binade:
  assumes "2 powi e \<le> \<bar>x\<bar>" and "\<bar>x\<bar> < 2 powi (e + 1)"
  shows "float64_round x = of_int (round_half_even (x / 2 powi (e - 52))) * 2 powi (e - 52)"
proof -
  have "(0::real) < 2 powi e" by (rule zero_less_power_int) simp
  then have "0 < \<bar>x\<bar>" using assms(1) by linarith
  then have "x \<noteq> 0" by simp
  then show ?thesis
    using floor_log2_binade [OF assms] by (simp add: float64_round_def Let_def)
qed

lemma binade_of_nonzero:
  assumes "x \<noteq> 0"
  shows "2 powi \<lfloor>log 2 \<bar>x\<bar>\<rfloor> \<le> \<bar>x\<bar> \<and> \<bar>x\<bar> < 2 powi (\<lfloor>log 2 \<bar>x\<bar>\<rfloor> + 1)"
proof -
  let ?e = "\<lfloor>log 2 \<bar>x\<bar>\<rfloor>"
  have pos: "0 < \<bar>x\<bar>" using assms by simp
  have "(2::real) powr (real_of_int ?e) \<le> \<bar>x\<bar> \<and> \<bar>x\<bar> < 2 powr (real_of_int ?e + 1)"
    using floor_log_eq_powr_iff [OF pos, of 2 ?e] by simp
  moreover have "(2::real) powr (real_of_int ?e) = 2 powi ?e" by (simp add: powr_real_of_int')
  moreover have "(2::real) powr (real_of_int ?e + 1) = 2 powi (?e + 1)"
    using powr_real_of_int' [of 2 "?e + 1"] by simp
  ultimately show ?thesis by simp
qed

lemma float64_round_exact:
  fixes m :: int
  assumes "2 ^ 52 \<le> \<bar>m\<bar>" and "\<bar>m\<bar> < 2 ^ 53"
  shows "float64_round (of_int m * 2 powi k) = of_int m * 2 powi k"
proof -
  let ?x = "real_of_int m * 2 powi k"
  have u: "(0::real) < 2 powi k" by (rule zero_less_power_int) simp
  have abs: "\<bar>?x\<bar> = real_of_int \<bar>m\<bar> * 2 powi k" using u by (simp add: abs_mult)
  have p52: "(2::real) powi (k + 52) = 2 ^ 52 * 2 powi k"
    by (simp add: power_int_add)
  have p53: "(2::real) powi (k + 52 + 1) = 2 ^ 53 * 2 powi k"
    by (simp add: power_int_add)
  have "(2::real) ^ 52 \<le> real_of_int \<bar>m\<bar>" using assms(1) by (metis of_int_le_iff of_int_numeral of_int_power)
  then have lo: "2 powi (k + 52) \<le> \<bar>?x\<bar>"
    unfolding abs p52 using u by (simp only: mult_le_cancel_right_pos)
  have "real_of_int \<bar>m\<bar> < 2 ^ 53" using assms(2) by (metis of_int_less_iff of_int_numeral of_int_power)
  then have hi: "\<bar>?x\<bar> < 2 powi (k + 52 + 1)"
    unfolding abs p53 using u by (simp only: mult_less_cancel_right_pos)
  have "float64_round ?x
          = of_int (round_half_even (?x / 2 powi (k + 52 - 52))) * 2 powi (k + 52 - 52)"
    by (rule float64_round_binade [OF lo hi])
  also have "?x / 2 powi (k + 52 - 52) = of_int m" using u by simp
  finally show ?thesis by simp
qed

lemma float64_round_idem: "float64_round (float64_round x) = float64_round x"
proof (cases "x = 0")
  case True
  then show ?thesis by (simp add: float64_round_def)
next
  case False
  define e where "e = \<lfloor>log 2 \<bar>x\<bar>\<rfloor>"
  define u :: real where "u = 2 powi (e - 52)"
  define n where "n = round_half_even (x / u)"
  have u: "0 < u" unfolding u_def by (rule zero_less_power_int) simp
  have b: "2 powi e \<le> \<bar>x\<bar>" "\<bar>x\<bar> < 2 powi (e + 1)"
    using binade_of_nonzero [OF False] by (simp_all add: e_def)
  have r: "float64_round x = of_int n * u"
    using float64_round_binade [OF b] by (simp add: n_def u_def)
  have pe: "(2::real) powi e = 2 ^ 52 * u"
    using power_int_add [of "2::real" 52 "e - 52"] by (simp add: u_def)
  have pe1: "(2::real) powi (e + 1) = 2 ^ 53 * u"
    using power_int_add [of "2::real" 53 "e - 52"] by (simp add: u_def add.commute)
  have ay: "\<bar>x / u\<bar> = \<bar>x\<bar> / u" using u by simp
  have ylo: "2 ^ 52 \<le> \<bar>x / u\<bar>"
    unfolding ay using b(1) u by (simp add: pe pos_le_divide_eq)
  have yhi: "\<bar>x / u\<bar> < 2 ^ 53"
    unfolding ay using b(2) u by (simp add: pe1 pos_divide_less_eq)
  have nb: "(2 ^ 52 \<le> n \<and> n \<le> 2 ^ 53) \<or> (- (2 ^ 53) \<le> n \<and> n \<le> - (2 ^ 52))"
  proof (cases "0 \<le> x / u")
    case True
    then have "of_int (2 ^ 52) \<le> x / u" "x / u \<le> of_int (2 ^ 53)"
      using ylo yhi by simp_all
    from round_half_even_bounds [OF this] show ?thesis by (simp add: n_def)
  next
    case False
    then have "of_int (- (2 ^ 53)) \<le> x / u" "x / u \<le> of_int (- (2 ^ 52))"
      using ylo yhi by simp_all
    from round_half_even_bounds [OF this] show ?thesis by (simp add: n_def)
  qed
  have "float64_round (of_int n * u) = of_int n * u"
  proof (cases "\<bar>n\<bar> < 2 ^ 53")
    case True
    moreover have "2 ^ 52 \<le> \<bar>n\<bar>" using nb by linarith
    ultimately show ?thesis
      unfolding u_def by (intro float64_round_exact)
  next
    case False
    then have n: "n = 2 ^ 53 \<or> n = - (2 ^ 53)" using nb by (simp add: abs_if split: if_splits)
    have u2: "(2::real) powi (e - 51) = 2 * u"
      using power_int_add [of "2::real" 1 "e - 52"] by (simp add: u_def)
    have ex: "float64_round (of_int m * 2 powi (e - 51)) = of_int m * 2 powi (e - 51)"
      if "m = 2 ^ 52 \<or> m = - (2 ^ 52)" for m :: int
      using that by (intro float64_round_exact) auto
    from n show ?thesis
    proof
      assume "n = 2 ^ 53"
      then have "of_int n * u = of_int (2 ^ 52) * 2 powi (e - 51)" by (simp add: u2)
      then show ?thesis using ex [of "2 ^ 52"] by simp
    next
      assume "n = - (2 ^ 53)"
      then have "of_int n * u = of_int (- (2 ^ 52)) * 2 powi (e - 51)" by (simp add: u2)
      then show ?thesis using ex [of "- (2 ^ 52)"] by simp
    qed
  qed
  then show ?thesis by (simp add: r)
qed

lemma float64_round_0 [simp]: "float64_round 0 = 0"
  by (simp add: float64_round_def)

lemma float64_round_1 [simp]: "float64_round 1 = 1"
  using float64_round_exact [of "2 ^ 52" "- 52"] by (simp add: power_int_minus)

lemma float64_round_half [simp]: "float64_round (1/2) = 1/2"
  using float64_round_exact [of "2 ^ 52" "- 53"] by (simp add: power_int_minus)

lemma float64_round_0_3 [simp]: "float64_round float64_0_3 = float64_0_3"
  using float64_round_exact [of 5404319552844595 "- 54"]
  by (simp add: power_int_minus float64_0_3_def field_simps)

lemma float64_round_0_7 [simp]: "float64_round float64_0_7 = float64_0_7"
  using float64_round_exact [of 6305039478318694 "- 53"]
  by (simp add: power_int_minus float64_0_7_def field_simps)

lemma literal_0_3: "float64_round (3/10) = float64_0_3"
proof -
  have b: "(2::real) powi (- 2) \<le> \<bar>3/10\<bar>" "\<bar>3/10 :: real\<bar> < 2 powi (- 2 + 1)"
    by (simp_all add: power_int_minus)
  have y: "(3/10 :: real) / 2 powi (- 2 - 52) = 54043195528445952 / 10"
    by (simp add: power_int_minus)
  have r: "round_half_even (54043195528445952 / 10) = 5404319552844595"
    by (simp add: round_half_even_def Let_def)
  have "float64_round (3/10)
          = of_int (round_half_even ((3/10) / 2 powi (- 2 - 52))) * 2 powi (- 2 - 52)"
    by (rule float64_round_binade [OF b])
  also have "\<dots> = of_int 5404319552844595 * 2 powi (- 2 - 52)"
    by (simp only: y r)
  also have "\<dots> = float64_0_3"
    by (simp add: float64_0_3_def power_int_minus)
  finally show ?thesis .
qed

lemma one_minus_0_3: "float64_round (1 - float64_0_3) = float64_0_7"
proof -
  have v: "1 - float64_0_3 = 12610078956637389 / 2 ^ 54" by (simp add: float64_0_3_def)
  have b: "(2::real) powi (- 1) \<le> \<bar>1 - float64_0_3\<bar>" "\<bar>1 - float64_0_3\<bar> < 2 powi (- 1 + 1)"
    by (simp_all add: v power_int_minus)
  have y: "(1 - float64_0_3) / 2 powi (- 1 - 52) = 12610078956637389 / 2"
    by (simp add: v power_int_minus)
  have r: "round_half_even (12610078956637389 / 2) = 6305039478318694"
    by (simp add: round_half_even_def Let_def)
  have "float64_round (1 - float64_0_3)
          = of_int (round_half_even ((1 - float64_0_3) / 2 powi (- 1 - 52))) * 2 powi (- 1 - 52)"
    by (rule float64_round_binade [OF b])
  also have "\<dots> = of_int 6305039478318694 * 2 powi (- 1 - 52)"
    by (simp only: y r)
  also have "\<dots> = float64_0_7"
    by (simp add: float64_0_7_def power_int_minus)
  finally show ?thesis .
qed

lemma one_minus_0_7: "float64_round (1 - float64_0_7) = float64_0_3_next"
proof -
  have v: "1 - float64_0_7 = 5404319552844596 * 2 powi (- 54)"
    by (simp add: float64_0_7_def power_int_minus)
  show ?thesis
    unfolding v using float64_round_exact [of 5404319552844596 "- 54"]
    by (simp add: float64_0_3_next_def power_int_minus)
qed

lemma float64_0_3_order:
  "0 \<le> float64_0_3" "\<not> float64_0_3_next \<le> float64_0_3"
  by (simp_all add: float64_0_3_def float64_0_3_next_def)

lemma float64_exp_0 [simp]: "float64_exp 0 = 1"
  by (simp add: float64_exp_def)

lemma float64_0_3_nonzero: "float64_0_3 \<noteq> 0"
  by (simp add: float64_0_3_def)

subsection \<open>The rescaled update at the bounds (0, 1)\<close>

text \<open>
  In exact arithmetic the bounds \<open>(0, 1)\<close> give the rescaling factor 1 and map every expert
  to itself, so the two updates of the real-valued model coincide.
\<close>

lemma rescaling_unit_bounds_exact_arithmetic:
  "update_weights_with_rescaling h hidden_s hidden_b 0 1 = update_weights h hidden_s hidden_b"
  by (simp add: update_weights_with_rescaling_def update_weights_def Let_def comp_def)

text \<open>
  Claim C10, as stated, fails in float64: the rescaled bid is computed as \<^verbatim>\<open>1 - (1 - bid)\<close>,
  which for \<^verbatim>\<open>bid = 0.3\<close> is \<^verbatim>\<open>0.30000000000000004\<close>. On the learner with the one expert
  \<^verbatim>\<open>(0.5, 0.3)\<close> and the feedback \<^verbatim>\<open>(0, 0.3)\<close>, \<^verbatim>\<open>update_weights\<close> finds the expert feasible and
  adds \<^verbatim>\<open>0.3\<close> to its accumulator, while \<^verbatim>\<open>update_weights_with_rescaling\<close> with the bounds
  \<open>(0, 1)\<close> finds it infeasible and adds 0.
\<close>

theorem rescaling_unit_bounds_differ_float64:
  "update_weights_f64 float64_exp (Hedge_init [(1/2, float64_0_3)] 1) 0 float64_0_3 =
     Inr \<lparr> experts = [(1/2, float64_0_3)], T_hedge = 1, no_experts = 1, weights = [1],
           epsilon = 0, gft = [float64_0_3] \<rparr>
   \<and> update_weights_with_rescaling_f64 float64_exp (Hedge_init [(1/2, float64_0_3)] 1)
       0 float64_0_3 0 1 =
     Inr \<lparr> experts = [(1/2, float64_0_3)], T_hedge = 1, no_experts = 1, weights = [1],
           epsilon = 0, gft = [0] \<rparr>
   \<and> float64_0_3 \<noteq> 0"
  using float64_0_3_order float64_0_3_nonzero
  by (simp add: update_weights_f64_def update_weights_with_rescaling_f64_def Hedge_init_def
      Let_def one_minus_0_3 one_minus_0_7 float64_0_3_def [symmetric])

text \<open>
  Claim C10, amended: for every learner state whose experts have float64 asks and whose
  bids all satisfy \<^verbatim>\<open>1 - (1 - bid) == bid\<close> in float64 (as \<open>0\<close>, \<open>1/2\<close> and \<open>1\<close> do), and for
  every pair \<open>(hidden_s, hidden_b)\<close>, \<^verbatim>\<open>update_weights_with_rescaling\<close> with the bounds \<open>(0, 1)\<close>
  returns exactly what \<^verbatim>\<open>update_weights\<close> returns: the rescaling factor is 1 and the
  transform maps each expert to itself. This holds for any implementation of the
  exponential.
\<close>

theorem rescaling_unit_bounds_float64:
  assumes "\<forall>x \<in> set (experts h).
             float64_round (fst x) = fst x
           \<and> float64_round (1 - float64_round (1 - snd x)) = snd x"
  shows "update_weights_with_rescaling_f64 fexp h hidden_s hidden_b 0 1
           = update_weights_f64 fexp h hidden_s hidden_b"
proof -
  have p: "map (\<lambda>x. hidden_s \<le> float64_round (float64_round (fst x))) (experts h)
             = map (\<lambda>e. hidden_s \<le> fst e) (experts h)"
    using assms by (intro map_cong) simp_all
  have q: "map (\<lambda>x. float64_round (1 - float64_round (float64_round (1 - snd x))) \<le> hidden_b)
               (experts h)
             = map (\<lambda>e. snd e \<le> hidden_b) (experts h)"
    using assms by (intro map_cong) (simp_all add: float64_round_idem)
  show ?thesis
    by (simp add: update_weights_with_rescaling_f64_def update_weights_f64_def Let_def p q
        comp_def)
qed

theorem rescaling_unit_bounds_float64_witness:
  "update_weights_with_rescaling_f64 float64_exp (Hedge_init [(1/2, 1/2), (1, 0)] 1) 0 1 0 1
     = update_weights_f64 float64_exp (Hedge_init [(1/2, 1/2), (1, 0)] 1) 0 1"
proof -
  have "\<forall>x \<in> set (experts (Hedge_init [(1/2, 1/2), (1, 0)] 1)).
             float64_round (fst x) = fst x
           \<and> float64_round (1 - float64_round (1 - snd x)) = snd x"
    by (simp add: Hedge_init_def)
  from rescaling_unit_bounds_float64 [OF this] show ?thesis .
qed

section \<open>Properties of the price grids\<close>

subsection \<open>The pairs of the multiplicative grid\<close>

lemma in_multiplicative_inner:
  "x \<in> set (multiplicative_inner g is grid) \<longleftrightarrow>
     x \<in> set grid
     \<or> (\<exists>i \<in> set is. (x = (g - 1 / 2 ^ i, g) \<and> g - 1 / 2 ^ i \<ge> 0)
                     \<or> (x = (g, g + 1 / 2 ^ i) \<and> g + 1 / 2 ^ i \<le> 1))"
proof (induction "is" arbitrary: grid)
  case Nil
  show ?case by simp
next
  case (Cons i "is")
  show ?case
    unfolding multiplicative_inner.simps Let_def Cons.IH
    by (simp only: set_append set_simps bex_simps split: if_splits) blast
qed

lemma grid_point_Nil: "grid_point K [] is x = False"
  by (simp add: grid_point_def)

lemma grid_point_Cons:
  "grid_point K (k # ks) is x \<longleftrightarrow>
     x = (real k / real_of_int K, real k / real_of_int K)
     \<or> (\<exists>i \<in> set is.
              (x = (real k / real_of_int K - 1 / 2 ^ i, real k / real_of_int K)
                 \<and> real k / real_of_int K - 1 / 2 ^ i \<ge> 0)
            \<or> (x = (real k / real_of_int K, real k / real_of_int K + 1 / 2 ^ i)
                 \<and> real k / real_of_int K + 1 / 2 ^ i \<le> 1))
     \<or> grid_point K ks is x"
  by (simp add: grid_point_def)

lemma in_multiplicative_outer:
  "x \<in> set (multiplicative_outer K ks grid) \<longleftrightarrow>
     x \<in> set grid \<or> grid_point K ks (inner_range K) x"
proof (induction ks arbitrary: grid)
  case Nil
  show ?case by (simp add: grid_point_Nil)
next
  case (Cons k ks)
  show ?case
    unfolding multiplicative_outer.simps Let_def Cons.IH in_multiplicative_inner grid_point_Cons
    by (simp only: set_append set_simps) blast
qed

lemma set_inner_range:
  assumes "1 \<le> K"
  shows "i \<in> set (inner_range K) \<longleftrightarrow> int i \<le> \<lfloor>ln (real_of_int K)\<rfloor>"
proof -
  have "0 \<le> ln (real_of_int K)" using assms by simp
  then have "0 \<le> \<lfloor>ln (real_of_int K)\<rfloor>" by simp
  then show ?thesis by (auto simp: inner_range_def)
qed

lemma set_outer_range:
  assumes "1 \<le> K"
  shows "k \<in> set [0..<nat (K + 1)] \<longleftrightarrow> int k \<le> K"
  using assms by auto

lemma grid_logic:
  "(\<exists>k. A k \<and> (D k \<or> (\<exists>i. B i \<and> (E k i \<and> C k i \<or> F k i \<and> C' k i)))) \<longleftrightarrow>
   ((\<exists>k. D k \<and> A k) \<or> (\<exists>k i. E k i \<and> A k \<and> B i \<and> C k i))
     \<or> (\<exists>k i. F k i \<and> A k \<and> B i \<and> C' k i)"
  by blast

lemma grid_point_grid_set:
  assumes "1 \<le> K"
  shows "grid_point K [0..<nat (K + 1)] (inner_range K) x \<longleftrightarrow> x \<in> multiplicative_grid_set K"
  unfolding grid_point_def Bex_def set_inner_range [OF assms] set_outer_range [OF assms]
    multiplicative_grid_set_def Un_iff mem_Collect_eq
  by (rule grid_logic)

lemma inner_range_1: "inner_range 1 = [0]"
  by (simp add: inner_range_def)

lemma create_multiplicative_grid_1:
  "create_multiplicative_grid 1 = Inr [(0, 0), (0, 1), (1, 1), (0, 1)]"
proof -
  have "[0..<nat (1 + 1)] = [0, 1]" by (simp add: upt_rec)
  then show ?thesis
    by (simp add: create_multiplicative_grid_def inner_range_1)
qed

lemma not_in_spec_grid_1: "(0, 1) \<notin> spec_multiplicative_grid 1"
  by (simp add: spec_multiplicative_grid_def)

text \<open>
  Claim C5, as stated, fails: it takes the exponents \<open>i\<close> from \<open>[0, floor (ln K))\<close>, which
  is empty for \<open>K = 1\<close>, while the source iterates over \<^verbatim>\<open>range(int(np.log(K)+1))\<close>, which
  contains \<open>i = 0\<close>. For \<open>K = 1\<close> the grid contains the pair \<open>(0, 1)\<close>, which is not in the
  set the claim describes.
\<close>

theorem multiplicative_grid_exponent_zero:
  "create_multiplicative_grid 1 = Inr [(0, 0), (0, 1), (1, 1), (0, 1)]
   \<and> (0, 1) \<notin> spec_multiplicative_grid 1"
  using create_multiplicative_grid_1 not_in_spec_grid_1 by simp

text \<open>
  Claim C5, amended: for every \<open>K \<ge> 1\<close> the grid is built without error and consists of
  exactly the diagonal pairs \<open>(k/K, k/K)\<close> for \<open>k\<close> in \<open>[0, K]\<close> together with, for each
  diagonal point \<open>g\<close> and each \<open>i\<close> in \<open>[0, floor (ln K)]\<close> (the bound included, and no
  other exponents), the pair \<open>(g - 2^-i, g)\<close> when \<open>g - 2^-i \<ge> 0\<close> and the pair
  \<open>(g, g + 2^-i)\<close> when \<open>g + 2^-i \<le> 1\<close>.
\<close>

theorem multiplicative_grid_contents:
  assumes "1 \<le> K"
  shows "\<exists>grid. create_multiplicative_grid K = Inr grid \<and> set grid = multiplicative_grid_set K"
proof -
  have "set (multiplicative_outer K [0..<nat (K + 1)] []) = multiplicative_grid_set K"
  proof (rule set_eqI)
    fix x
    show "x \<in> set (multiplicative_outer K [0..<nat (K + 1)] []) \<longleftrightarrow> x \<in> multiplicative_grid_set K"
      unfolding in_multiplicative_outer grid_point_grid_set [OF assms] by simp
  qed
  then show ?thesis using assms by (simp add: create_multiplicative_grid_def)
qed

theorem multiplicative_grid_contents_witness:
  "\<exists>grid. create_multiplicative_grid 1 = Inr grid \<and> set grid = multiplicative_grid_set 1
     \<and> (0, 1) \<in> multiplicative_grid_set 1"
proof -
  have "(1::int) \<le> 1" by simp
  from multiplicative_grid_contents [OF this]
  obtain grid where g: "create_multiplicative_grid 1 = Inr grid"
      "set grid = multiplicative_grid_set 1"
    by blast
  from g(1) have "grid = [(0, 0), (0, 1), (1, 1), (0, 1)]"
    by (simp only: create_multiplicative_grid_1 sum.inject)
  then have "(0, 1) \<in> set grid" by simp
  then have "(0, 1) \<in> multiplicative_grid_set 1" by (simp only: g(2))
  with g show ?thesis by blast
qed

subsection \<open>Order of ask and bid in the two grids\<close>

lemma multiplicative_grid_ordered:
  assumes "create_multiplicative_grid K = Inr F" and "x \<in> set F"
  shows "fst x \<le> snd x"
proof -
  from assms have "x \<in> set (multiplicative_outer K [0..<nat (K + 1)] [])"
    by (auto simp: create_multiplicative_grid_def split: if_splits)
  then have "grid_point K [0..<nat (K + 1)] (inner_range K) x"
    by (simp add: in_multiplicative_outer)
  then show ?thesis
    by (auto simp: grid_point_def)
qed

lemma additive_grid_ordered:
  assumes "x \<in> set (create_additive_grid K)"
  shows "snd x < fst x"
proof -
  from assms obtain i where i: "i < nat K"
    and x: "x = ((real i + 1) / real_of_int K, real i / real_of_int K)"
    by (auto simp: create_additive_grid_def)
  from i have "0 < real_of_int K" by simp
  then show ?thesis using x by (simp add: divide_strict_right_mono)
qed

lemma create_additive_grid_1: "create_additive_grid 1 = [(1, 0)]"
  by (simp add: create_additive_grid_def)

section \<open>Properties of the mechanisms\<close>

subsection \<open>Rescaling an action\<close>




subsection \<open>Construction\<close>

lemma Hedge_init_experts [simp]: "experts (Hedge_init es t) = es"
  by (simp add: Hedge_init_def Let_def)

lemma GFTMax_init_result:
  assumes "GFTMax_init t e = Inr st"
  shows "create_multiplicative_grid \<lfloor>sqrt (real_of_int t)\<rfloor> = Inr (experts (hedge_profit st))"
    and "experts (hedge_gft st) = create_additive_grid \<lfloor>sqrt (real_of_int t)\<rfloor>"
    and "environment st = e" and "run_profit_max st" and "budget st = 0" and "gft_total st = 0"
  using assms
  by (auto simp: GFTMax_init_def Let_def split: if_splits sum.splits)

lemma sqrt_3_bounds: "1 < sqrt 3" "sqrt 3 < 2"
proof -
  show "1 < sqrt 3" by simp
  show "sqrt 3 < 2" by (rule real_less_lsqrt) simp_all
qed

lemma floor_sqrt_3: "\<lfloor>sqrt 3\<rfloor> = 1"
  using sqrt_3_bounds by (intro floor_unique) simp_all

lemma GFTMax_init_1:
  "GFTMax_init 1 e =
     Inr \<lparr> budget = 0, gft_total = 0, budget_threshold = 1, grid_K = 1, T_rounds = 1,
           environment = e, run_profit_max = True,
           price_grid_F = [(0, 0), (0, 1), (1, 1), (0, 1)],
           price_grid_H = [(1, 0)],
           hedge_profit = Hedge_init [(0, 0), (0, 1), (1, 1), (0, 1)] 1,
           hedge_gft = Hedge_init [(1, 0)] 1 \<rparr>"
  by (simp add: GFTMax_init_def Let_def create_multiplicative_grid_1 create_additive_grid_1)

lemma GFTMax_init_3:
  "GFTMax_init 3 e =
     Inr \<lparr> budget = 0, gft_total = 0, budget_threshold = sqrt 3, grid_K = 1, T_rounds = 3,
           environment = e, run_profit_max = True,
           price_grid_F = [(0, 0), (0, 1), (1, 1), (0, 1)],
           price_grid_H = [(1, 0)],
           hedge_profit = Hedge_init [(0, 0), (0, 1), (1, 1), (0, 1)] 3,
           hedge_gft = Hedge_init [(1, 0)] 3 \<rparr>"
  by (simp add: GFTMax_init_def Let_def floor_sqrt_3 create_multiplicative_grid_1 create_additive_grid_1)

lemma floor_sqrt_small:
  assumes "1 \<le> t" and "t \<le> 3"
  shows "\<lfloor>sqrt (real_of_int t)\<rfloor> = 1"
proof (rule floor_unique)
  show "of_int 1 \<le> sqrt (real_of_int t)" using assms(1) by simp
  have "real_of_int t < 2\<^sup>2" using assms(2) by simp
  then have "sqrt (real_of_int t) < 2" by (intro real_less_lsqrt) simp_all
  then show "sqrt (real_of_int t) < of_int 1 + 1" by simp
qed

lemma floor_sqrt_pos:
  assumes "0 < t"
  shows "1 \<le> \<lfloor>sqrt (real_of_int t)\<rfloor>"
proof -
  have "1 \<le> sqrt (real_of_int t)" using assms by simp
  then show ?thesis by (simp add: le_floor_iff)
qed

lemma Hedge_init_singleton:
  assumes "0 < t" and "t < 2 ^ 63"
  shows "Hedge_init [x] t =
     \<lparr> experts = [x], T_hedge = t, no_experts = 1, weights = [1], epsilon = 0, gft = [0] \<rparr>"
  by (simp add: Hedge_init_def)

lemma multiplicative_outer_nonempty:
  "ks \<noteq> [] \<or> grid \<noteq> [] \<Longrightarrow> multiplicative_outer K ks grid \<noteq> []"
proof -
  have inner: "multiplicative_inner g is grid' \<noteq> []" if "grid' \<noteq> []" for g "is" grid'
    using that by (induction "is" arbitrary: grid') (auto simp: Let_def)
  have "grid' \<noteq> [] \<Longrightarrow> multiplicative_outer K ks' grid' \<noteq> []" for ks' grid'
    by (induction ks' arbitrary: grid') (auto simp: Let_def inner)
  then show "ks \<noteq> [] \<or> grid \<noteq> [] \<Longrightarrow> multiplicative_outer K ks grid \<noteq> []"
    by (cases ks) (auto simp: Let_def inner)
qed

lemma GFTMax_init_mech_wf:
  assumes "GFTMax_init t e = Inr st"
  shows "mech_wf st"
proof -
  let ?K = "\<lfloor>sqrt (real_of_int t)\<rfloor>"
  from assms have t: "0 \<le> t" and K0: "?K \<noteq> 0"
    by (auto simp: GFTMax_init_def Let_def create_multiplicative_grid_def split: if_splits)
  have "0 \<le> ?K" using t by simp
  with K0 have K: "1 \<le> ?K" by linarith
  have F: "experts (hedge_profit st) = multiplicative_outer ?K [0..<nat (?K + 1)] []"
    using GFTMax_init_result(1) [OF assms] K0 by (simp add: create_multiplicative_grid_def)
  have "0 < nat (?K + 1)" using K by linarith
  then have "[0..<nat (?K + 1)] \<noteq> []" unfolding upt_eq_Nil_conv by linarith
  then have F_ne: "experts (hedge_profit st) \<noteq> []"
    using F multiplicative_outer_nonempty by simp
  have H_ne: "experts (hedge_gft st) \<noteq> []"
    using GFTMax_init_result(2) [OF assms] K by (simp add: create_additive_grid_def)
  have "hedge_wf (hedge_profit st)" "hedge_wf (hedge_gft st)"
    using assms Hedge_init_wf
    by (auto simp: GFTMax_init_def Let_def split: if_splits sum.splits)
  then show ?thesis using F_ne H_ne by (simp add: mech_wf_def)
qed

text \<open>
  Claim C7, as stated, fails for the learner: \<^verbatim>\<open>Hedge.__init__\<close> has no check, and
  \<^verbatim>\<open>GFTMax(1, environment)\<close> is constructed without error although its additive grid has
  the single pair \<open>(1, 0)\<close>, so that its GFT learner has one expert, \<open>epsilon = 0\<close> and
  weight 1.
\<close>

theorem one_expert_learner_is_constructed:
  "GFTMax_init 1 example_env =
     Inr \<lparr> budget = 0, gft_total = 0, budget_threshold = 1, grid_K = 1, T_rounds = 1,
           environment = example_env, run_profit_max = True,
           price_grid_F = [(0, 0), (0, 1), (1, 1), (0, 1)],
           price_grid_H = [(1, 0)],
           hedge_profit = Hedge_init [(0, 0), (0, 1), (1, 1), (0, 1)] 1,
           hedge_gft = Hedge_init [(1, 0)] 1 \<rparr>
   \<and> Hedge_init [(1, 0)] 1 =
       \<lparr> experts = [(1, 0)], T_hedge = 1, no_experts = 1, weights = [1], epsilon = 0,
         gft = [0] \<rparr>"
  using GFTMax_init_1 [of example_env] Hedge_init_singleton [of 1 "(1, 0)"] by simp

text \<open>
  Claim C7, amended: constructing the mechanism with a non-positive horizon fails at
  construction time, with an error of the arithmetic and not a dedicated configuration
  error: ZeroDivisionError for \<open>T = 0\<close> (the division \<^verbatim>\<open>k/K\<close> of the multiplicative grid),
  ValueError for \<open>- 2^63 \<le> T < 0\<close> (\<^verbatim>\<open>int\<close> of a \<^verbatim>\<open>nan\<close>) and TypeError for \<open>T < - 2^63\<close>
  (\<^verbatim>\<open>np.sqrt\<close> of an integer outside the 64-bit range). The learner's constructor checks
  nothing: on a one-expert set and a horizon \<open>0 < T < 2^63\<close> it returns a learner with
  \<open>epsilon = 0\<close> and weight 1, and the mechanism is constructed with such a GFT learner,
  over the single expert \<open>(1, 0)\<close>, for \<open>1 \<le> T \<le> 3\<close>.
\<close>

theorem construction_checks:
  "(t < - (2 ^ 63) \<longrightarrow> GFTMax_init t e = Inl TypeError)
   \<and> (- (2 ^ 63) \<le> t \<and> t < 0 \<longrightarrow> GFTMax_init t e = Inl ValueError)
   \<and> (t = 0 \<longrightarrow> GFTMax_init t e = Inl ZeroDivisionError)
   \<and> (1 \<le> t \<and> t \<le> 3 \<longrightarrow>
        (\<exists>st. GFTMax_init t e = Inr st
           \<and> hedge_gft st =
               \<lparr> experts = [(1, 0)], T_hedge = t, no_experts = 1, weights = [1], epsilon = 0,
                 gft = [0] \<rparr>))
   \<and> (0 < t \<and> t < 2 ^ 63 \<longrightarrow>
        Hedge_init [x] t =
          \<lparr> experts = [x], T_hedge = t, no_experts = 1, weights = [1], epsilon = 0,
            gft = [0] \<rparr>)"
proof (intro conjI impI)
  show "GFTMax_init t e = Inl TypeError" if "t < - (2 ^ 63)"
    using that by (simp add: GFTMax_init_def)
  show "GFTMax_init t e = Inl ValueError" if "- (2 ^ 63) \<le> t \<and> t < 0"
    using that by (simp add: GFTMax_init_def)
  show "GFTMax_init t e = Inl ZeroDivisionError" if "t = 0"
    using that by (simp add: GFTMax_init_def create_multiplicative_grid_def)
  show "\<exists>st. GFTMax_init t e = Inr st
           \<and> hedge_gft st =
               \<lparr> experts = [(1, 0)], T_hedge = t, no_experts = 1, weights = [1], epsilon = 0,
                 gft = [0] \<rparr>"
    if "1 \<le> t \<and> t \<le> 3"
  proof -
    have "0 < t" "t < 2 ^ 63" using that by simp_all
    from Hedge_init_singleton [OF this]
    have "Hedge_init [(1, 0)] t =
            \<lparr> experts = [(1, 0)], T_hedge = t, no_experts = 1, weights = [1], epsilon = 0,
              gft = [0] \<rparr>" .
    then show ?thesis
      using that floor_sqrt_small [of t]
      by (simp add: GFTMax_init_def create_multiplicative_grid_1 create_additive_grid_1 Let_def)
  qed
  show "Hedge_init [x] t =
     \<lparr> experts = [x], T_hedge = t, no_experts = 1, weights = [1], epsilon = 0, gft = [0] \<rparr>"
    if "0 < t \<and> t < 2 ^ 63"
    using that by (intro Hedge_init_singleton) simp_all
qed

theorem construction_checks_witness:
  "GFTMax_init (- (2 ^ 63) - 1) example_env = Inl TypeError
   \<and> GFTMax_init (- 1) example_env = Inl ValueError
   \<and> GFTMax_init 0 example_env = Inl ZeroDivisionError
   \<and> (\<exists>st. GFTMax_init 2 example_env = Inr st
          \<and> hedge_gft st =
              \<lparr> experts = [(1, 0)], T_hedge = 2, no_experts = 1, weights = [1], epsilon = 0,
                gft = [0] \<rparr>)
   \<and> Hedge_init [(1, 0)] 2 =
       \<lparr> experts = [(1, 0)], T_hedge = 2, no_experts = 1, weights = [1], epsilon = 0,
         gft = [0] \<rparr>"
proof -
  have "GFTMax_init (- (2 ^ 63) - 1) example_env = Inl TypeError"
    using construction_checks [where t = "- (2 ^ 63) - 1" and e = example_env] by simp
  moreover have "GFTMax_init (- 1) example_env = Inl ValueError"
    using construction_checks [where t = "- 1" and e = example_env] by simp
  moreover have "GFTMax_init 0 example_env = Inl ZeroDivisionError"
    using construction_checks [where t = 0 and e = example_env] by simp
  moreover have "\<exists>st. GFTMax_init 2 example_env = Inr st
          \<and> hedge_gft st =
              \<lparr> experts = [(1, 0)], T_hedge = 2, no_experts = 1, weights = [1], epsilon = 0,
                gft = [0] \<rparr>"
  proof -
    from construction_checks [where t = 2 and e = example_env and x = "(1, 0)"]
    have "(1::int) \<le> 2 \<and> (2::int) \<le> 3 \<longrightarrow>
            (\<exists>st. GFTMax_init 2 example_env = Inr st
               \<and> hedge_gft st =
                   \<lparr> experts = [(1, 0)], T_hedge = 2, no_experts = 1, weights = [1],
                     epsilon = 0, gft = [0] \<rparr>)"
      by blast
    then show ?thesis by simp
  qed
  moreover have "Hedge_init [(1, 0)] 2 =
       \<lparr> experts = [(1, 0)], T_hedge = 2, no_experts = 1, weights = [1], epsilon = 0,
         gft = [0] \<rparr>"
  proof -
    from construction_checks [where t = 2 and e = example_env and x = "(1, 0)"]
    have "(0::int) < 2 \<and> (2::int) < 2 ^ 63 \<longrightarrow>
            Hedge_init [(1, 0)] 2 =
              \<lparr> experts = [(1, 0)], T_hedge = 2, no_experts = 1, weights = [1], epsilon = 0,
                gft = [0] \<rparr>"
      by blast
    then show ?thesis by simp
  qed
  ultimately show ?thesis by blast
qed

subsection \<open>Effect and frame of a round\<close>

lemma choose_action_in_set: "choose_action h r = Inr a \<Longrightarrow> a \<in> set (experts h)"
  by (auto simp: choose_action_def split: if_splits)

lemma budget_update_gft [simp]: "budget (update_gft st a f) = budget st"
  by (simp add: update_gft_def)

lemma gft_total_update_budget [simp]: "gft_total (update_budget st a f) = gft_total st"
  by (simp add: update_budget_def)

lemma update_budget_frame [simp]:
  "run_profit_max (update_budget st a f) = run_profit_max st"
  "hedge_profit (update_budget st a f) = hedge_profit st"
  "hedge_gft (update_budget st a f) = hedge_gft st"
  "environment (update_budget st a f) = environment st"
  "budget_threshold (update_budget st a f) = budget_threshold st"
  by (simp_all add: update_budget_def)

lemma update_gft_frame [simp]:
  "run_profit_max (update_gft st a f) = run_profit_max st"
  "hedge_profit (update_gft st a f) = hedge_profit st"
  "hedge_gft (update_gft st a f) = hedge_gft st"
  "environment (update_gft st a f) = environment st"
  "budget_threshold (update_gft st a f) = budget_threshold st"
  by (simp_all add: update_gft_def)

lemma update_budget_mono:
  "fst a \<le> snd a \<Longrightarrow> budget st \<le> budget (update_budget st a f)"
  by (simp add: update_budget_def)

lemma update_budget_antimono:
  "snd a \<le> fst a \<Longrightarrow> budget (update_budget st a f) \<le> budget st"
  by (simp add: update_budget_def)

lemma update_gft_mono_ordered:
  "fst a \<le> snd a \<Longrightarrow> gft_total st \<le> gft_total (update_gft st a f)"
  by (auto simp: update_gft_def)

lemma update_gft_mono_potential:
  "fst f \<le> snd f \<Longrightarrow> gft_total st \<le> gft_total (update_gft st a f)"
  by (simp add: update_gft_def)

lemma profit_max_result:
  assumes "profit_max st i r = Inr st'"
  shows "\<exists>a hp st3.
           choose_action (hedge_profit st) r = Inr a
         \<and> update_weights (hedge_profit st) (fst (get_valuations (environment st) i))
               (snd (get_valuations (environment st) i)) = Inr hp
         \<and> st3 = update_gft (update_budget (st\<lparr>hedge_profit := hp\<rparr>) a
                     (get_valuations (environment st) i)) a (get_valuations (environment st) i)
         \<and> st' = (if budget st3 \<ge> budget_threshold st3
                   then st3\<lparr>run_profit_max := False\<rparr> else st3)"
  using assms by (auto simp: profit_max_def Let_def split: sum.splits)

lemma gft_max_result:
  assumes "gft_max st i r = Inr st'"
  shows "\<exists>a hg hp.
           choose_action (hedge_gft st) r = Inr a
         \<and> update_weights (hedge_gft st) (fst (get_valuations (environment st) i))
               (snd (get_valuations (environment st) i)) = Inr hg
         \<and> update_weights (hedge_profit st) (fst (get_valuations (environment st) i))
               (snd (get_valuations (environment st) i)) = Inr hp
         \<and> st' = update_gft (update_budget (st\<lparr>hedge_gft := hg, hedge_profit := hp\<rparr>) a
                     (get_valuations (environment st) i)) a (get_valuations (environment st) i)"
  using assms by (auto simp: gft_max_def Let_def split: sum.splits)

lemma profit_max_frame:
  assumes "profit_max st i r = Inr st'"
  shows "experts (hedge_profit st') = experts (hedge_profit st)"
    and "hedge_gft st' = hedge_gft st"
    and "environment st' = environment st"
    and "budget_threshold st' = budget_threshold st"
    and "run_profit_max st' \<longrightarrow> run_profit_max st"
  using profit_max_result [OF assms]
  by (auto simp: update_weights_frame split: if_splits)

lemma gft_max_frame:
  assumes "gft_max st i r = Inr st'"
  shows "experts (hedge_profit st') = experts (hedge_profit st)"
    and "experts (hedge_gft st') = experts (hedge_gft st)"
    and "environment st' = environment st"
    and "budget_threshold st' = budget_threshold st"
    and "run_profit_max st' = run_profit_max st"
  using gft_max_result [OF assms]
  by (auto simp: update_weights_frame)

lemma round_step_frame:
  assumes "round_step st draw i = Inr st'"
  shows "experts (hedge_profit st') = experts (hedge_profit st)"
    and "experts (hedge_gft st') = experts (hedge_gft st)"
    and "environment st' = environment st"
    and "budget_threshold st' = budget_threshold st"
    and "run_profit_max st' \<longrightarrow> run_profit_max st"
  using assms profit_max_frame [of st i "draw i" st'] gft_max_frame [of st i "draw i" st']
  by (auto simp: round_step_def split: if_splits)

lemma run_rounds_frame:
  assumes "run_rounds st draw is = Inr st'"
  shows "experts (hedge_profit st') = experts (hedge_profit st)
       \<and> experts (hedge_gft st') = experts (hedge_gft st)
       \<and> environment st' = environment st
       \<and> budget_threshold st' = budget_threshold st
       \<and> (run_profit_max st' \<longrightarrow> run_profit_max st)"
  using assms
proof (induction "is" arbitrary: st)
  case Nil
  then show ?case by simp
next
  case (Cons i "is")
  from Cons.prems obtain st1 where s1: "round_step st draw i = Inr st1"
    and r: "run_rounds st1 draw is = Inr st'"
    by (auto split: sum.splits)
  show ?case using Cons.IH [OF r] round_step_frame [OF s1] by simp
qed

lemma choose_action_total:
  assumes "hedge_wf h" and "r < length (experts h)"
  shows "choose_action h r = Inr (experts h ! r)"
  using assms by (simp add: choose_action_def hedge_wf_def)

lemma round_step_total:
  assumes "mech_wf st"
    and "draw i < length (experts (if run_profit_max st then hedge_profit st else hedge_gft st))"
  shows "\<exists>st'. round_step st draw i = Inr st' \<and> mech_wf st'"
proof -
  let ?fb = "get_valuations (environment st) i"
  from assms(1) have wfp: "hedge_wf (hedge_profit st)" and wfg: "hedge_wf (hedge_gft st)"
    and nep: "experts (hedge_profit st) \<noteq> []" and neg: "experts (hedge_gft st) \<noteq> []"
    by (simp_all add: mech_wf_def)
  obtain hp where hp: "update_weights (hedge_profit st) (fst ?fb) (snd ?fb) = Inr hp"
    using update_weights_total [OF nep] by blast
  obtain hg where hg: "update_weights (hedge_gft st) (fst ?fb) (snd ?fb) = Inr hg"
    using update_weights_total [OF neg] by blast
  have hp': "hedge_wf hp" "experts hp \<noteq> []"
    using update_weights_wf [OF wfp hp] update_weights_frame [OF hp] nep by simp_all
  have hg': "hedge_wf hg" "experts hg \<noteq> []"
    using update_weights_wf [OF wfg hg] update_weights_frame [OF hg] neg by simp_all
  show ?thesis
  proof (cases "run_profit_max st")
    case True
    then have "choose_action (hedge_profit st) (draw i) = Inr (experts (hedge_profit st) ! draw i)"
      using choose_action_total [OF wfp] assms(2) by simp
    then show ?thesis
      using True hp hp' wfg neg
      by (simp add: round_step_def profit_max_def Let_def mech_wf_def)
  next
    case False
    then have "choose_action (hedge_gft st) (draw i) = Inr (experts (hedge_gft st) ! draw i)"
      using choose_action_total [OF wfg] assms(2) by simp
    then show ?thesis
      using False hp hg hp' hg'
      by (simp add: round_step_def gft_max_def Let_def mech_wf_def)
  qed
qed

lemma constrained_profit_max_phase:
  assumes "constrained_profit_max st i r = Inr st'"
  shows "run_profit_max st' \<longrightarrow> run_profit_max st"
  using assms
  by (auto simp: constrained_profit_max_def Let_def split: sum.splits prod.splits if_splits)

lemma constrained_gft_max_phase:
  assumes "constrained_gft_max st i r = Inr st'"
  shows "run_profit_max st' = run_profit_max st"
  using assms
  by (auto simp: constrained_gft_max_def Let_def split: sum.splits prod.splits if_splits)

lemma constrained_round_step_phase:
  assumes "constrained_round_step st draw i = Inr st'"
  shows "run_profit_max st' \<longrightarrow> run_profit_max st"
  using assms constrained_profit_max_phase [of st i "draw i" st']
    constrained_gft_max_phase [of st i "draw i" st']
  by (auto simp: constrained_round_step_def split: if_splits)

lemma constrained_run_rounds_phase:
  assumes "constrained_run_rounds st draw is = Inr st'"
  shows "run_profit_max st' \<longrightarrow> run_profit_max st"
  using assms
proof (induction "is" arbitrary: st)
  case Nil
  then show ?case by simp
next
  case (Cons i "is")
  from Cons.prems obtain st1 where s1: "constrained_round_step st draw i = Inr st1"
    and r: "constrained_run_rounds st1 draw is = Inr st'"
    by (auto split: sum.splits)
  show ?case using Cons.IH [OF r] constrained_round_step_phase [OF s1] by simp
qed

lemma constrained_profit_max_feasible:
  assumes "get_constraints (environment st) i = (s_dot, b_dot)"
    and "choose_action (hedge_profit st) r = Inr a"
    and "s_dot \<le> fst a" and "snd a \<le> b_dot"
  shows "constrained_profit_max st i r = profit_max st i r"
  using assms by (simp add: constrained_profit_max_def profit_max_def Let_def not_less)

lemma constrained_gft_max_feasible:
  assumes "get_constraints (environment st) i = (s_dot, b_dot)"
    and "choose_action (hedge_gft st) r = Inr a"
    and "s_dot \<le> fst a" and "snd a \<le> b_dot"
  shows "constrained_gft_max st i r = gft_max st i r"
  using assms by (simp add: constrained_gft_max_def gft_max_def Let_def not_less)

lemma profit_max_monotone:
  assumes "profit_max st i r = Inr st'"
    and "\<forall>x \<in> set (experts (hedge_profit st)). fst x \<le> snd x"
  shows "budget st \<le> budget st' \<and> gft_total st \<le> gft_total st'"
proof -
  from profit_max_result [OF assms(1)] obtain a hp st3 where
    a: "choose_action (hedge_profit st) r = Inr a"
    and st3: "st3 = update_gft (update_budget (st\<lparr>hedge_profit := hp\<rparr>) a
                     (get_valuations (environment st) i)) a (get_valuations (environment st) i)"
    and st': "st' = (if budget st3 \<ge> budget_threshold st3
                   then st3\<lparr>run_profit_max := False\<rparr> else st3)"
    by blast
  have ord: "fst a \<le> snd a" using choose_action_in_set [OF a] assms(2) by blast
  have "budget st' = budget st3" "gft_total st' = gft_total st3" using st' by simp_all
  moreover have "budget st \<le> budget st3"
    using update_budget_mono [OF ord, of "st\<lparr>hedge_profit := hp\<rparr>"] st3 by simp
  moreover have "gft_total st \<le> gft_total st3"
    using update_gft_mono_ordered [OF ord, of "update_budget (st\<lparr>hedge_profit := hp\<rparr>) a
        (get_valuations (environment st) i)" "get_valuations (environment st) i"] st3
    by simp
  ultimately show ?thesis by simp
qed


lemma gft_max_budget_gft:
  assumes "gft_max st i r = Inr st'"
    and "\<forall>x \<in> set (experts (hedge_gft st)). snd x < fst x"
  shows "budget st' \<le> budget st"
    and "fst (get_valuations (environment st) i) \<le> snd (get_valuations (environment st) i)
           \<Longrightarrow> gft_total st \<le> gft_total st'"
proof -
  let ?fb = "get_valuations (environment st) i"
  from gft_max_result [OF assms(1)] obtain a hg hp where
    a: "choose_action (hedge_gft st) r = Inr a"
    and st': "st' = update_gft (update_budget (st\<lparr>hedge_gft := hg, hedge_profit := hp\<rparr>) a ?fb) a ?fb"
    by blast
  have ord: "snd a \<le> fst a" using choose_action_in_set [OF a] assms(2) by fastforce
  show "budget st' \<le> budget st"
    using update_budget_antimono [OF ord, of "st\<lparr>hedge_gft := hg, hedge_profit := hp\<rparr>" ?fb] st'
    by simp
  show "gft_total st \<le> gft_total st'" if "fst ?fb \<le> snd ?fb"
    using update_gft_mono_potential [OF that,
        of "update_budget (st\<lparr>hedge_gft := hg, hedge_profit := hp\<rparr>) a ?fb" a] st'
    by simp
qed

subsection \<open>The concrete run, evaluated\<close>

lemmas step_defs =
  round_step_def profit_max_def gft_max_def choose_action_def update_weights_def
  Hedge_init_def update_budget_def update_gft_def Let_def example_env_def example_draw_def

lemma two_rounds_state:
  "rounds_after_init 3 example_env example_draw [0, 1] = Inr state_after_two_rounds"
  using sqrt_3_bounds
  by (simp add: rounds_after_init_def GFTMax_init_3 step_defs state_after_two_rounds_def)

lemma third_round_state:
  "round_step state_after_two_rounds example_draw 2 = Inr state_after_three_rounds"
  by (simp add: step_defs state_after_two_rounds_def state_after_three_rounds_def)

lemma third_round_constrained:
  "constrained_round_step state_after_two_rounds example_draw 2 = Inr state_after_three_rounds"
  by (simp add: constrained_round_step_def constrained_gft_max_def step_defs
      state_after_two_rounds_def state_after_three_rounds_def)

subsection \<open>Budget and gains from trade over a run\<close>

text \<open>
  Claim C1, as stated, fails in the GFT-maximizing phase. In the run with \<open>T = 3\<close>,
  valuations \<open>(0, 1), (0, 1), (1, 0)\<close> and draws \<open>1, 1, 0\<close>, the budget reaches the
  threshold after two rounds (budget 2, gft 2); in round 2 the action \<open>(1, 0)\<close> of the
  additive grid clears and the round ends with budget 1 and gft 1.
\<close>

theorem budget_and_gft_drop_in_gft_phase:
  "rounds_after_init 3 example_env example_draw [0, 1] = Inr state_after_two_rounds
   \<and> round_step state_after_two_rounds example_draw 2 = Inr state_after_three_rounds
   \<and> budget state_after_three_rounds < budget state_after_two_rounds
   \<and> gft_total state_after_three_rounds < gft_total state_after_two_rounds"
  using two_rounds_state third_round_state
  by (simp add: state_after_two_rounds_def state_after_three_rounds_def)

text \<open>
  Claim C1, amended: for every feedback sequence and every round of the run that starts in
  the profit-maximizing phase (the committed action comes from the multiplicative grid,
  where \<open>ask \<le> bid\<close>), budget and gft after the round are greater than or equal to their
  values before it. In a round of the GFT-maximizing phase (action from the additive grid,
  where \<open>bid < ask\<close>) the budget does not increase, and gft does not decrease when the
  round's valuations have \<open>hidden_s \<le> hidden_b\<close>.
\<close>

theorem budget_and_gft_by_phase:
  assumes "GFTMax_init t e = Inr st0"
    and "run_rounds st0 draw is = Inr st"
    and "round_step st draw i = Inr st'"
  shows "(run_profit_max st \<longrightarrow> budget st \<le> budget st' \<and> gft_total st \<le> gft_total st')
       \<and> (\<not> run_profit_max st \<longrightarrow>
            budget st' \<le> budget st
          \<and> (fst (get_valuations e i) \<le> snd (get_valuations e i) \<longrightarrow>
               gft_total st \<le> gft_total st'))"
proof -
  note init = GFTMax_init_result [OF assms(1)]
  note frame = run_rounds_frame [OF assms(2)]
  have F: "\<forall>x \<in> set (experts (hedge_profit st)). fst x \<le> snd x"
    using multiplicative_grid_ordered [OF init(1)] frame by simp
  have H: "\<forall>x \<in> set (experts (hedge_gft st)). snd x < fst x"
    using additive_grid_ordered init(2) frame by simp
  have env: "environment st = e" using init(3) frame by simp
  show ?thesis
  proof (cases "run_profit_max st")
    case True
    then have "profit_max st i (draw i) = Inr st'" using assms(3) by (simp add: round_step_def)
    from profit_max_monotone [OF this F] True show ?thesis by simp
  next
    case False
    then have "gft_max st i (draw i) = Inr st'" using assms(3) by (simp add: round_step_def)
    from gft_max_budget_gft [OF this H] False env show ?thesis by simp
  qed
qed

theorem budget_and_gft_by_phase_witness:
  "budget state_after_three_rounds \<le> budget state_after_two_rounds
   \<and> (\<exists>st0 st1. GFTMax_init 3 example_env = Inr st0
          \<and> round_step st0 example_draw 0 = Inr st1
          \<and> budget st0 \<le> budget st1 \<and> gft_total st0 \<le> gft_total st1)"
proof -
  obtain st0 where init: "GFTMax_init 3 example_env = Inr st0"
    using GFTMax_init_3 by blast
  have two: "run_rounds st0 example_draw [0, 1] = Inr state_after_two_rounds"
    using two_rounds_state init by (simp add: rounds_after_init_def)
  then obtain st1 where first: "round_step st0 example_draw 0 = Inr st1"
    by (auto split: sum.splits)
  have nil: "run_rounds st0 example_draw [] = Inr st0" by simp
  have flag0: "run_profit_max st0" using GFTMax_init_result(4) [OF init] .
  have flag2: "\<not> run_profit_max state_after_two_rounds"
    by (simp add: state_after_two_rounds_def)
  have "budget st0 \<le> budget st1 \<and> gft_total st0 \<le> gft_total st1"
    using budget_and_gft_by_phase [OF init nil first] flag0 by simp
  moreover have "budget state_after_three_rounds \<le> budget state_after_two_rounds"
    using budget_and_gft_by_phase [OF init two third_round_state] flag2 by simp
  ultimately show ?thesis using init first by blast
qed

subsection \<open>The phase flag\<close>

text \<open>
  Claim C3. From a state whose phase flag is off (GFT-maximizing phase), any number of
  further rounds of the loop of \<^verbatim>\<open>GFTMax.run\<close>, and likewise of the loop with the methods of
  \<^verbatim>\<open>ConstrainedGFTMax\<close>, for any valuations, constraints and draws, ends in a state whose
  flag is off: no round switches back to the profit-maximizing phase.
\<close>

theorem phase_never_reverts:
  assumes "\<not> run_profit_max st"
  shows "(run_rounds st draw is = Inr st' \<longrightarrow> \<not> run_profit_max st')
       \<and> (constrained_run_rounds st draw is = Inr st'' \<longrightarrow> \<not> run_profit_max st'')"
  using assms run_rounds_frame [of st draw "is" st']
    constrained_run_rounds_phase [of st draw "is" st'']
  by blast

theorem phase_never_reverts_witness:
  "\<not> run_profit_max state_after_two_rounds
   \<and> run_rounds state_after_two_rounds example_draw [2] = Inr state_after_three_rounds
   \<and> constrained_run_rounds state_after_two_rounds example_draw [2] = Inr state_after_three_rounds
   \<and> \<not> run_profit_max state_after_three_rounds"
proof -
  have flag: "\<not> run_profit_max state_after_two_rounds"
    by (simp add: state_after_two_rounds_def)
  have r: "run_rounds state_after_two_rounds example_draw [2] = Inr state_after_three_rounds"
    using third_round_state by simp
  have c: "constrained_run_rounds state_after_two_rounds example_draw [2]
             = Inr state_after_three_rounds"
    using third_round_constrained by simp
  from phase_never_reverts [OF flag, of example_draw "[2]" state_after_three_rounds
      state_after_three_rounds] r
  have "\<not> run_profit_max state_after_three_rounds" by simp
  with flag r c show ?thesis by simp
qed

subsection \<open>The constrained step on a feasible action\<close>

text \<open>
  Claim C8. In a round whose chosen action satisfies the bounds (\<open>s_dot \<le> ask\<close> and
  \<open>bid \<le> b_dot\<close>), the step of \<^verbatim>\<open>ConstrainedGFTMax\<close> returns exactly what the step of
  \<^verbatim>\<open>GFTMax\<close> returns from the same state, round and draw: the same learners updated by the
  plain \<^verbatim>\<open>update_weights\<close>, the same budget, gft and phase flag. This holds for the
  profit-maximizing step, for the GFT-maximizing step and for the dispatch of the loop.
\<close>

theorem constrained_step_with_feasible_action:
  assumes "get_constraints (environment st) i = (s_dot, b_dot)"
    and "s_dot \<le> fst a" and "snd a \<le> b_dot"
  shows "(choose_action (hedge_profit st) r = Inr a \<longrightarrow>
            constrained_profit_max st i r = profit_max st i r)
       \<and> (choose_action (hedge_gft st) r = Inr a \<longrightarrow>
            constrained_gft_max st i r = gft_max st i r)
       \<and> (choose_action (if run_profit_max st then hedge_profit st else hedge_gft st) (draw i)
            = Inr a \<longrightarrow>
            constrained_round_step st draw i = round_step st draw i)"
  using constrained_profit_max_feasible [OF assms(1) _ assms(2,3)]
    constrained_gft_max_feasible [OF assms(1) _ assms(2,3)]
  by (simp add: constrained_round_step_def round_step_def)

theorem constrained_step_with_feasible_action_witness:
  "constrained_gft_max state_after_two_rounds 2 0 = gft_max state_after_two_rounds 2 0
   \<and> constrained_round_step state_after_two_rounds example_draw 2
       = round_step state_after_two_rounds example_draw 2
   \<and> gft_max state_after_two_rounds 2 0 = Inr state_after_three_rounds"
proof -
  have c: "get_constraints (environment state_after_two_rounds) 2 = (0, 1)"
    by (simp add: state_after_two_rounds_def example_env_def)
  have a: "choose_action (hedge_gft state_after_two_rounds) 0 = Inr (1, 0)"
    by (simp add: state_after_two_rounds_def choose_action_def)
  have a': "choose_action (if run_profit_max state_after_two_rounds
                           then hedge_profit state_after_two_rounds
                           else hedge_gft state_after_two_rounds) (example_draw 2) = Inr (1, 0)"
    by (simp add: state_after_two_rounds_def choose_action_def example_draw_def)
  have g: "gft_max state_after_two_rounds 2 0 = Inr state_after_three_rounds"
    using third_round_state
    by (simp add: round_step_def state_after_two_rounds_def example_draw_def)
  from constrained_step_with_feasible_action [OF c, of "(1, 0)" 0 example_draw] a a' g
  show ?thesis by simp
qed

end
